theory Spec2Isabelle
  imports Complex_Main
begin

section \<open>JavaScript values and strings\<close>

text \<open>
  The services exchange JSON values and JavaScript strings. A string is modelled as a
  list of 8-bit characters read as Latin-1 code points, so the model covers the strings
  whose UTF-16 code units are all below 256 (the euro sign of the currency class is
  outside this range). A number is modelled as a real: the value of the IEEE double,
  without rounding, NaN or infinities, except where a function names them explicitly.
  An object is an association list with distinct keys; inherited properties are not
  modelled.
\<close>

datatype jsvalue =
    JUndefined
  | JNull
  | JBool bool
  | JNum real
  | JStr string
  | JArr "jsvalue list"
  | JObj "(string \<times> jsvalue) list"

datatype js_error = Error string | SyntaxError string | TypeError string

text \<open>
  \<open>String(error)\<close> and \<open>error.message\<close> of a thrown error object. The string of an
  error is its name alone when the message is empty, and the name, a colon, a space and the
  message otherwise.
\<close>

fun error_to_string :: "js_error \<Rightarrow> string" where
  "error_to_string (Error m) = (if m = [] then ''Error'' else ''Error: '' @ m)"
| "error_to_string (SyntaxError m) = (if m = [] then ''SyntaxError'' else ''SyntaxError: '' @ m)"
| "error_to_string (TypeError m) = (if m = [] then ''TypeError'' else ''TypeError: '' @ m)"

fun error_message :: "js_error \<Rightarrow> string" where
  "error_message (Error m) = m"
| "error_message (SyntaxError m) = m"
| "error_message (TypeError m) = m"

text \<open>
  The characters matched by \<open>\s\<close> and removed by \<open>trim()\<close>: tab, line feed, vertical
  tab, form feed, carriage return, space and the no-break space.
\<close>

definition is_space :: "char \<Rightarrow> bool" where
  "is_space c = (c \<in> set [CHR 0x09, CHR 0x0A, CHR 0x0B, CHR 0x0C, CHR 0x0D, CHR 0x20, CHR 0xA0])"

definition is_digit :: "char \<Rightarrow> bool" where
  "is_digit c = (c \<in> set ''0123456789'')"

definition digit_val :: "char \<Rightarrow> nat" where
  "digit_val c = of_char c - 48"

definition trim :: "string \<Rightarrow> string" where
  "trim s = rev (dropWhile is_space (rev (dropWhile is_space s)))"

definition lower_char :: "char \<Rightarrow> char" where
  "lower_char c =
     (let n = (of_char c :: nat)
      in if (65 \<le> n \<and> n \<le> 90) \<or> (192 \<le> n \<and> n \<le> 222 \<and> n \<noteq> 215)
         then char_of (n + 32) else c)"

definition toLowerCase :: "string \<Rightarrow> string" where
  "toLowerCase s = map lower_char s"

definition startsWith :: "string \<Rightarrow> string \<Rightarrow> bool" where
  "startsWith s p = (take (length p) s = p)"

definition endsWith :: "string \<Rightarrow> string \<Rightarrow> bool" where
  "endsWith s p = (length p \<le> length s \<and> drop (length s - length p) s = p)"

fun str_includes :: "string \<Rightarrow> string \<Rightarrow> bool" where
  "str_includes [] p = (p = [])"
| "str_includes (c # cs) p = (startsWith (c # cs) p \<or> str_includes cs p)"

text \<open>Own property lookup \<open>obj[key]\<close> on a value; \<open>undefined\<close> when absent.\<close>

fun get_prop :: "jsvalue \<Rightarrow> string \<Rightarrow> jsvalue" where
  "get_prop (JObj kvs) k = (case map_of kvs k of None \<Rightarrow> JUndefined | Some v \<Rightarrow> v)"
| "get_prop _ k = JUndefined"

section \<open>ConfidenceCalculator\<close>

definition CONFIDENCE_MIN :: real where "CONFIDENCE_MIN = 0"
definition CONFIDENCE_MAX :: real where "CONFIDENCE_MAX = 1"
definition DEFAULT_LLM_CONFIDENCE :: real where "DEFAULT_LLM_CONFIDENCE = 0.8"
definition VALIDATION_CONFIDENCE_PASS :: real where "VALIDATION_CONFIDENCE_PASS = 1.0"
definition VALIDATION_CONFIDENCE_FAIL :: real where "VALIDATION_CONFIDENCE_FAIL = 0.3"
definition CLARITY_CONFIDENCE_NO_TEXT :: real where "CLARITY_CONFIDENCE_NO_TEXT = 0.4"
definition CLARITY_CONFIDENCE_NO_KEYWORDS :: real where "CLARITY_CONFIDENCE_NO_KEYWORDS = 1.0"
definition CLARITY_CONFIDENCE_ALL_KEYWORDS :: real where "CLARITY_CONFIDENCE_ALL_KEYWORDS = 1.0"
definition CLARITY_CONFIDENCE_MOST_KEYWORDS :: real where "CLARITY_CONFIDENCE_MOST_KEYWORDS = 0.7"
definition CLARITY_CONFIDENCE_FEW_KEYWORDS :: real where "CLARITY_CONFIDENCE_FEW_KEYWORDS = 0.4"
definition KEYWORD_MATCH_RATIO_FULL :: real where "KEYWORD_MATCH_RATIO_FULL = 1.0"
definition KEYWORD_MATCH_RATIO_PARTIAL :: real where "KEYWORD_MATCH_RATIO_PARTIAL = 0.5"
definition LLM_CONFIDENCE_LOW_THRESHOLD :: real where "LLM_CONFIDENCE_LOW_THRESHOLD = 0.7"
definition CLARITY_CONFIDENCE_LOW_THRESHOLD :: real where "CLARITY_CONFIDENCE_LOW_THRESHOLD = 0.7"
definition VALIDATION_CONFIDENCE_CRITICAL_THRESHOLD :: real where
  "VALIDATION_CONFIDENCE_CRITICAL_THRESHOLD = 0.3"
definition CLARITY_CONFIDENCE_POOR_THRESHOLD :: real where "CLARITY_CONFIDENCE_POOR_THRESHOLD = 0.4"
definition DEFAULT_CONFIDENCE_THRESHOLD :: real where "DEFAULT_CONFIDENCE_THRESHOLD = 0.7"
definition FIELD_CLARITY_CONFIDENCE :: real where "FIELD_CLARITY_CONFIDENCE = 0.8"
definition CLASSIFICATION_VALIDATION_CONFIDENCE :: real where
  "CLASSIFICATION_VALIDATION_CONFIDENCE = 1.0"

lemmas confidence_constants =
  CONFIDENCE_MIN_def CONFIDENCE_MAX_def DEFAULT_LLM_CONFIDENCE_def
  VALIDATION_CONFIDENCE_PASS_def VALIDATION_CONFIDENCE_FAIL_def
  CLARITY_CONFIDENCE_NO_TEXT_def CLARITY_CONFIDENCE_NO_KEYWORDS_def
  CLARITY_CONFIDENCE_ALL_KEYWORDS_def CLARITY_CONFIDENCE_MOST_KEYWORDS_def
  CLARITY_CONFIDENCE_FEW_KEYWORDS_def KEYWORD_MATCH_RATIO_FULL_def
  KEYWORD_MATCH_RATIO_PARTIAL_def LLM_CONFIDENCE_LOW_THRESHOLD_def
  CLARITY_CONFIDENCE_LOW_THRESHOLD_def VALIDATION_CONFIDENCE_CRITICAL_THRESHOLD_def
  CLARITY_CONFIDENCE_POOR_THRESHOLD_def DEFAULT_CONFIDENCE_THRESHOLD_def
  FIELD_CLARITY_CONFIDENCE_def CLASSIFICATION_VALIDATION_CONFIDENCE_def

definition EXPECTED_KEYWORDS_MAP :: "(string \<times> string list) list" where
  "EXPECTED_KEYWORDS_MAP =
     [(''Bank Statement'', [''account'', ''balance'', ''statement'', ''bank'', ''transaction'']),
      (''Government ID'',
         [''license'', ''identification'', ''id'', ''expires'', ''date of birth'', ''dob'']),
      (''W-9'', [''w-9'', ''tax'', ''ein'', ''ssn'', ''irs'', ''taxpayer'']),
      (''Certificate of Insurance'',
         [''insurance'', ''policy'', ''certificate'', ''coverage'', ''insured'']),
      (''Articles of Incorporation'',
         [''articles'', ''incorporation'', ''state'', ''corporation'', ''entity'', ''filed''])]"

text \<open>
  The reasons are fixed messages; the first carries the rounded percentage
  \<open>Math.round(llm_confidence * 100)\<close>. \<open>reason_text\<close> gives the message of each.
\<close>

datatype reason =
    ModelUncertainty int
  | ValidationFailed
  | PartialValidation
  | PoorDocumentQuality
  | MissingKeywords
  | CombinedFactors

function show_nat :: "nat \<Rightarrow> string" where
  "show_nat n = (if n < 10 then [char_of (48 + n)] else show_nat (n div 10) @ [char_of (48 + n mod 10)])"
  by pat_completeness auto
termination
  by (relation "measure id") auto

declare show_nat.simps [simp del]

definition show_int :: "int \<Rightarrow> string" where
  "show_int i = (if i < 0 then ''-'' @ show_nat (nat (- i)) else show_nat (nat i))"

fun reason_text :: "reason \<Rightarrow> string" where
  "reason_text (ModelUncertainty p) =
     ''Model uncertainty: The AI model was not confident in its prediction ('' @ show_int p @ ''%)''"
| "reason_text ValidationFailed =
     ''Validation failed: Extracted data does not match expected format or contains errors''"
| "reason_text PartialValidation =
     ''Partial validation: Some extracted fields have format issues''"
| "reason_text PoorDocumentQuality =
     ''Poor document quality: Document may be unclear, missing expected text, or heavily degraded''"
| "reason_text MissingKeywords =
     ''Missing keywords: Document does not contain all expected identifying information''"
| "reason_text CombinedFactors =
     ''Combined factors: Multiple confidence components are slightly below optimal levels''"

text \<open>\<open>Math.round\<close>: the nearest integer, a half rounded up.\<close>

definition Math_round :: "real \<Rightarrow> int" where
  "Math_round x = \<lfloor>x + 1 / 2\<rfloor>"

record scores =
  llm_confidence :: real
  validation_confidence :: real
  clarity_confidence :: real
  reasons :: "reason list option"

record ConfidenceBreakdown = scores +
  final_confidence :: real

definition clampConfidence :: "real \<Rightarrow> real" where
  "clampConfidence v = max CONFIDENCE_MIN (min CONFIDENCE_MAX v)"

definition calculateMatchRatio :: "nat \<Rightarrow> nat \<Rightarrow> real" where
  "calculateMatchRatio foundKeywords totalKeywords = real foundKeywords / real totalKeywords"

definition mapMatchRatioToClarityConfidence :: "real \<Rightarrow> real" where
  "mapMatchRatioToClarityConfidence matchRatio =
     (if matchRatio \<ge> KEYWORD_MATCH_RATIO_FULL then CLARITY_CONFIDENCE_ALL_KEYWORDS
      else if matchRatio \<ge> KEYWORD_MATCH_RATIO_PARTIAL then CLARITY_CONFIDENCE_MOST_KEYWORDS
      else CLARITY_CONFIDENCE_FEW_KEYWORDS)"

fun calculateLLMConfidence :: "jsvalue \<Rightarrow> real" where
  "calculateLLMConfidence (JNum x) = clampConfidence x"
| "calculateLLMConfidence (JObj kvs) =
     (case map_of kvs ''confidence'' of
        Some (JNum c) \<Rightarrow> clampConfidence c
      | _ \<Rightarrow> DEFAULT_LLM_CONFIDENCE)"
| "calculateLLMConfidence _ = DEFAULT_LLM_CONFIDENCE"

definition calculateValidationConfidence :: "bool \<Rightarrow> string list option \<Rightarrow> real" where
  "calculateValidationConfidence isValid validationErrors =
     (if isValid then VALIDATION_CONFIDENCE_PASS
      else if (case validationErrors of None \<Rightarrow> False | Some es \<Rightarrow> length es > 0)
           then VALIDATION_CONFIDENCE_FAIL
      else VALIDATION_CONFIDENCE_FAIL)"

definition calculateClarityConfidence :: "string \<Rightarrow> string list \<Rightarrow> real" where
  "calculateClarityConfidence text expectedKeywords =
     (if length (trim text) = 0 then CLARITY_CONFIDENCE_NO_TEXT
      else if length expectedKeywords = 0 then CLARITY_CONFIDENCE_NO_KEYWORDS
      else let lowerText = toLowerCase text;
               foundKeywords = filter (\<lambda>keyword. str_includes lowerText (toLowerCase keyword))
                                 expectedKeywords
           in mapMatchRatioToClarityConfidence
                (calculateMatchRatio (length foundKeywords) (length expectedKeywords)))"

definition calculateFinalConfidence :: "scores \<Rightarrow> ConfidenceBreakdown" where
  "calculateFinalConfidence breakdown =
     \<lparr>llm_confidence = llm_confidence breakdown,
      validation_confidence = validation_confidence breakdown,
      clarity_confidence = clarity_confidence breakdown,
      reasons = reasons breakdown,
      final_confidence =
        clampConfidence (llm_confidence breakdown * validation_confidence breakdown
                         * clarity_confidence breakdown)\<rparr>"

definition generateLowConfidenceReasons :: "ConfidenceBreakdown \<Rightarrow> real option \<Rightarrow> reason list" where
  "generateLowConfidenceReasons breakdown threshold_arg =
     (let threshold = (case threshold_arg of None \<Rightarrow> DEFAULT_CONFIDENCE_THRESHOLD | Some t \<Rightarrow> t)
      in if final_confidence breakdown \<ge> threshold then []
         else
           let r1 = (if llm_confidence breakdown < LLM_CONFIDENCE_LOW_THRESHOLD
                     then [ModelUncertainty (Math_round (llm_confidence breakdown * 100))]
                     else []);
               r2 = (if validation_confidence breakdown < VALIDATION_CONFIDENCE_PASS
                     then (if validation_confidence breakdown
                              \<le> VALIDATION_CONFIDENCE_CRITICAL_THRESHOLD
                           then [ValidationFailed] else [PartialValidation])
                     else []);
               r3 = (if clarity_confidence breakdown < CLARITY_CONFIDENCE_LOW_THRESHOLD
                     then (if clarity_confidence breakdown \<le> CLARITY_CONFIDENCE_POOR_THRESHOLD
                           then [PoorDocumentQuality] else [MissingKeywords])
                     else []);
               reasons = r1 @ r2 @ r3
           in if length reasons = 0 then [CombinedFactors] else reasons)"

definition getExpectedKeywords :: "string \<Rightarrow> string list" where
  "getExpectedKeywords documentType =
     (case map_of EXPECTED_KEYWORDS_MAP documentType of None \<Rightarrow> [] | Some ks \<Rightarrow> ks)"

definition calculateClassificationConfidence ::
  "jsvalue \<Rightarrow> string \<Rightarrow> string \<Rightarrow> real option \<Rightarrow> ConfidenceBreakdown" where
  "calculateClassificationConfidence modelOutput ocrText predictedType threshold =
     (let llm = calculateLLMConfidence modelOutput;
          val = CLASSIFICATION_VALIDATION_CONFIDENCE;
          keywords = getExpectedKeywords predictedType;
          clarity = calculateClarityConfidence ocrText keywords;
          breakdown = calculateFinalConfidence
                        \<lparr>llm_confidence = llm, validation_confidence = val,
                         clarity_confidence = clarity, reasons = None\<rparr>;
          rs = generateLowConfidenceReasons breakdown threshold
      in breakdown\<lparr>reasons := (if length rs > 0 then Some rs else None)\<rparr>)"

definition calculateFieldConfidence ::
  "jsvalue \<Rightarrow> bool \<Rightarrow> string \<Rightarrow> string \<Rightarrow> string list option \<Rightarrow> real option
     \<Rightarrow> ConfidenceBreakdown" where
  "calculateFieldConfidence modelOutput isValid ocrText fieldName validationErrors threshold =
     (let llm = calculateLLMConfidence modelOutput;
          val = calculateValidationConfidence isValid validationErrors;
          clarity = FIELD_CLARITY_CONFIDENCE;
          breakdown = calculateFinalConfidence
                        \<lparr>llm_confidence = llm, validation_confidence = val,
                         clarity_confidence = clarity, reasons = None\<rparr>;
          rs = generateLowConfidenceReasons breakdown threshold
      in breakdown\<lparr>reasons := (if length rs > 0 then Some rs else None)\<rparr>)"

subsection \<open>The final confidence is the clamped product\<close>

lemma clampConfidence_range: "0 \<le> clampConfidence v \<and> clampConfidence v \<le> 1"
  by (simp add: clampConfidence_def CONFIDENCE_MIN_def CONFIDENCE_MAX_def)

lemma clampConfidence_id: "0 \<le> v \<Longrightarrow> v \<le> 1 \<Longrightarrow> clampConfidence v = v"
  by (simp add: clampConfidence_def CONFIDENCE_MIN_def CONFIDENCE_MAX_def)

lemma unit_product:
  fixes a b c :: real
  assumes "0 \<le> a" "a \<le> 1" "0 \<le> b" "b \<le> 1" "0 \<le> c" "c \<le> 1"
  shows "0 \<le> a * b * c \<and> a * b * c \<le> 1"
proof -
  have ab: "0 \<le> a * b" "a * b \<le> 1"
    using assms by (simp_all add: mult_le_one)
  then show ?thesis
    using assms by (simp add: mult_le_one)
qed

text \<open>
  C1. For sub-scores in [0,1], \<open>calculateFinalConfidence\<close> stores the clamped product of
  the three sub-scores as the final confidence, the result lies in [0,1], and the
  clamp leaves the product as it is.
\<close>

theorem calculateFinalConfidence_clamped_product:
  assumes "0 \<le> llm_confidence b" "llm_confidence b \<le> 1"
    and "0 \<le> validation_confidence b" "validation_confidence b \<le> 1"
    and "0 \<le> clarity_confidence b" "clarity_confidence b \<le> 1"
  shows "final_confidence (calculateFinalConfidence b)
           = clampConfidence (llm_confidence b * validation_confidence b * clarity_confidence b)
         \<and> 0 \<le> final_confidence (calculateFinalConfidence b)
         \<and> final_confidence (calculateFinalConfidence b) \<le> 1
         \<and> final_confidence (calculateFinalConfidence b)
           = llm_confidence b * validation_confidence b * clarity_confidence b"
proof -
  have "0 \<le> llm_confidence b * validation_confidence b * clarity_confidence b
        \<and> llm_confidence b * validation_confidence b * clarity_confidence b \<le> 1"
    using assms by (rule unit_product)
  then show ?thesis
    using clampConfidence_range clampConfidence_id
    by (simp add: calculateFinalConfidence_def)
qed

theorem calculateFinalConfidence_clamped_product_witness:
  "final_confidence (calculateFinalConfidence
      \<lparr>llm_confidence = 0.9, validation_confidence = 0.3, clarity_confidence = 1,
       reasons = None\<rparr>) = 0.27"
  using calculateFinalConfidence_clamped_product
          [of "\<lparr>llm_confidence = 0.9, validation_confidence = 0.3, clarity_confidence = 1,
                reasons = None\<rparr>"]
  by simp

subsection \<open>Low-confidence reasons\<close>

text \<open>
  C2. \<open>generateLowConfidenceReasons\<close> returns no reason when the final confidence reaches
  the threshold and at least one reason when it is below it. Below the threshold each
  sub-score is checked on its own against its fixed cut point: the model-uncertainty
  reason appears exactly when llm < 0.7; for validation < 1.0 the validation-failed reason
  appears when validation <= 0.3 and the partial-validation reason otherwise; for
  clarity < 0.7 the poor-quality reason appears when clarity <= 0.4 and the
  missing-keywords reason otherwise; the combined-factors reason appears exactly when
  none of the three checks trips. An omitted threshold stands for 0.7.
\<close>

theorem generateLowConfidenceReasons_cut_points:
  "(let rs = generateLowConfidenceReasons b (Some t) in
      (final_confidence b \<ge> t \<longrightarrow> rs = []) \<and>
      (final_confidence b < t \<longrightarrow>
         rs \<noteq> [] \<and>
         (\<forall>p. ModelUncertainty p \<in> set rs \<longleftrightarrow>
                llm_confidence b < 0.7 \<and> p = Math_round (llm_confidence b * 100)) \<and>
         (ValidationFailed \<in> set rs \<longleftrightarrow> validation_confidence b \<le> 0.3) \<and>
         (PartialValidation \<in> set rs \<longleftrightarrow>
            0.3 < validation_confidence b \<and> validation_confidence b < 1.0) \<and>
         (PoorDocumentQuality \<in> set rs \<longleftrightarrow> clarity_confidence b \<le> 0.4) \<and>
         (MissingKeywords \<in> set rs \<longleftrightarrow>
            0.4 < clarity_confidence b \<and> clarity_confidence b < 0.7) \<and>
         (CombinedFactors \<in> set rs \<longleftrightarrow>
            llm_confidence b \<ge> 0.7 \<and> validation_confidence b \<ge> 1.0
            \<and> clarity_confidence b \<ge> 0.7)))
   \<and> generateLowConfidenceReasons b None = generateLowConfidenceReasons b (Some 0.7)"
  by (auto simp add: generateLowConfidenceReasons_def Let_def confidence_constants)

theorem generateLowConfidenceReasons_cut_points_witness:
  "generateLowConfidenceReasons
     \<lparr>llm_confidence = 0.9, validation_confidence = 0.3, clarity_confidence = 1,
      reasons = None, final_confidence = 0.27\<rparr> (Some 0.7) = [ValidationFailed]
   \<and> generateLowConfidenceReasons
     \<lparr>llm_confidence = 0.95, validation_confidence = 1, clarity_confidence = 1,
      reasons = None, final_confidence = 0.95\<rparr> (Some 0.7) = []"
  using generateLowConfidenceReasons_cut_points
          [of "\<lparr>llm_confidence = 0.9, validation_confidence = 0.3, clarity_confidence = 1,
                reasons = None, final_confidence = 0.27\<rparr>" "0.7"]
        generateLowConfidenceReasons_cut_points
          [of "\<lparr>llm_confidence = 0.95, validation_confidence = 1, clarity_confidence = 1,
                reasons = None, final_confidence = 0.95\<rparr>" "0.7"]
  by (simp add: generateLowConfidenceReasons_def Let_def confidence_constants)

section \<open>TypeCoercionService: coerceToNumber\<close>

definition MAX_DECIMAL_SEPARATOR_LENGTH :: nat where "MAX_DECIMAL_SEPARATOR_LENGTH = 2"
definition MIN_DECIMAL_SEPARATOR_LENGTH :: nat where "MIN_DECIMAL_SEPARATOR_LENGTH = 1"
definition EUROPEAN_THOUSANDS_DIGITS :: nat where "EUROPEAN_THOUSANDS_DIGITS = 3"

text \<open>
  The result of \<open>parseFloat\<close>: a finite number (its exact decimal value), an infinity
  (the literal \<open>Infinity\<close>) or NaN.
\<close>

datatype jsnumber = NaN | PosInfinity | NegInfinity | Finite real

fun negate :: "jsnumber \<Rightarrow> jsnumber" where
  "negate NaN = NaN"
| "negate PosInfinity = NegInfinity"
| "negate NegInfinity = PosInfinity"
| "negate (Finite x) = Finite (- x)"

definition digits_value :: "string \<Rightarrow> nat" where
  "digits_value ds = foldl (\<lambda>acc c. 10 * acc + digit_val c) 0 ds"

text \<open>The exponent part \<open>[eE][+-]?digits\<close> at the head of a string, 0 when there is none.\<close>

definition exponent_part :: "string \<Rightarrow> int" where
  "exponent_part r =
     (case r of
        [] \<Rightarrow> 0
      | e # r1 \<Rightarrow>
          if e = CHR ''e'' \<or> e = CHR ''E'' then
            (let sgn = (case r1 of [] \<Rightarrow> 1 | c # _ \<Rightarrow> if c = CHR ''-'' then - 1 else (1::int));
                 r2 = (case r1 of [] \<Rightarrow> [] | c # t \<Rightarrow>
                         if c = CHR ''-'' \<or> c = CHR ''+'' then t else r1);
                 ds = takeWhile is_digit r2
             in if ds = [] then 0 else sgn * int (digits_value ds))
          else 0)"

text \<open>
  \<open>parseFloat\<close> (ECMA-262): leading white space is skipped and the longest prefix that
  is a decimal literal is read; NaN when there is none.
\<close>

definition parseFloat :: "string \<Rightarrow> jsnumber" where
  "parseFloat input =
     (let s = dropWhile is_space input;
          neg = (case s of [] \<Rightarrow> False | c # _ \<Rightarrow> c = CHR ''-'');
          s1 = (case s of [] \<Rightarrow> [] | c # t \<Rightarrow> if c = CHR ''-'' \<or> c = CHR ''+'' then t else s)
      in if startsWith s1 ''Infinity'' then (if neg then NegInfinity else PosInfinity)
         else
           let ip = takeWhile is_digit s1;
               r1 = dropWhile is_digit s1;
               has_point = (case r1 of [] \<Rightarrow> False | c # _ \<Rightarrow> c = CHR ''.'');
               fp = (if has_point then takeWhile is_digit (tl r1) else []);
               r2 = (if has_point then dropWhile is_digit (tl r1) else r1)
           in if ip = [] \<and> fp = [] then NaN
              else
                let m = real (digits_value ip) + real (digits_value fp) / 10 ^ length fp;
                    e = exponent_part r2;
                    v = (if e \<ge> 0 then m * 10 ^ nat e else m / 10 ^ nat (- e))
                in Finite (if neg then - v else v))"

text \<open>\<open>lastIndexOf\<close>: the index of the last occurrence, -1 when there is none.\<close>

fun lastIndexOf_from :: "string \<Rightarrow> char \<Rightarrow> int \<Rightarrow> int \<Rightarrow> int" where
  "lastIndexOf_from [] c i best = best"
| "lastIndexOf_from (x # xs) c i best = lastIndexOf_from xs c (i + 1) (if x = c then i else best)"

definition lastIndexOf :: "string \<Rightarrow> char \<Rightarrow> int" where
  "lastIndexOf s c = lastIndexOf_from s c 0 (- 1)"

text \<open>\<open>s.replace(c, d)\<close> with a string pattern replaces the first occurrence only.\<close>

fun replace_first :: "char \<Rightarrow> char \<Rightarrow> string \<Rightarrow> string" where
  "replace_first c d [] = []"
| "replace_first c d (x # xs) = (if x = c then d # xs else x # replace_first c d xs)"

definition remove_all :: "char \<Rightarrow> string \<Rightarrow> string" where
  "remove_all c s = filter (\<lambda>x. x \<noteq> c) s"

fun split_on :: "char \<Rightarrow> string \<Rightarrow> string list" where
  "split_on c [] = [[]]"
| "split_on c (x # xs) =
     (if x = c then [] # split_on c xs
      else (case split_on c xs of [] \<Rightarrow> [[x]] | p # ps \<Rightarrow> (x # p) # ps))"

text \<open>The class \<open>[$\<dots>\s]\<close> of currency signs (dollar, pound, yen) and white space.\<close>

definition is_currency_or_space :: "char \<Rightarrow> bool" where
  "is_currency_or_space c = (c = CHR ''$'' \<or> c = CHR 0xA3 \<or> c = CHR 0xA5 \<or> is_space c)"

text \<open>
  The first part of \<open>coerceToNumber\<close> on a string, up to the call of \<open>parseFloat\<close>:
  the sign flag \<open>isNegative\<close> and the text handed to \<open>parseFloat\<close>; \<open>None\<close> when the
  trimmed input is empty and the function returns null at once.
\<close>

definition numberText :: "string \<Rightarrow> (bool \<times> string) option" where
  "numberText v =
     (let cleaned0 = trim v in
      if cleaned0 = [] then None
      else
        let hasComma = (CHR '','' \<in> set cleaned0);
            hasPeriod = (CHR ''.'' \<in> set cleaned0);
            lastCommaIndex = lastIndexOf cleaned0 (CHR '','');
            lastPeriodIndex = lastIndexOf cleaned0 (CHR ''.'');
            cleaned1 = filter (\<lambda>c. \<not> is_currency_or_space c) cleaned0;
            cleaned2 =
              (if hasComma \<and> hasPeriod then
                 (if lastCommaIndex > lastPeriodIndex
                  then replace_first (CHR '','') (CHR ''.'') (remove_all (CHR ''.'') cleaned1)
                  else remove_all (CHR '','') cleaned1)
               else if hasComma \<and> \<not> hasPeriod then
                 (let afterComma = drop (nat (lastCommaIndex + 1)) cleaned1
                  in if length afterComma \<le> MAX_DECIMAL_SEPARATOR_LENGTH
                     then replace_first (CHR '','') (CHR ''.'') cleaned1
                     else remove_all (CHR '','') cleaned1)
               else if hasPeriod \<and> \<not> hasComma then
                 (let afterLastPeriod = drop (nat (lastPeriodIndex + 1)) cleaned1;
                      periodCount = length (filter (\<lambda>c. c = CHR ''.'') cleaned1)
                  in if periodCount > 1 then
                       (let parts = split_on (CHR ''.'') cleaned1;
                            allPartsThreeDigits =
                              list_all (\<lambda>part. length part = EUROPEAN_THOUSANDS_DIGITS)
                                (butlast (tl parts));
                            lastPartThreeDigits =
                              (length afterLastPeriod = EUROPEAN_THOUSANDS_DIGITS)
                        in if allPartsThreeDigits \<and> lastPartThreeDigits
                              \<and> length (hd parts) \<ge> MIN_DECIMAL_SEPARATOR_LENGTH
                              \<and> length (hd parts) \<le> EUROPEAN_THOUSANDS_DIGITS
                           then remove_all (CHR ''.'') cleaned1
                           else if length afterLastPeriod \<ge> MIN_DECIMAL_SEPARATOR_LENGTH
                                   \<and> length afterLastPeriod \<le> EUROPEAN_THOUSANDS_DIGITS
                           then (let lastPeriodPos = nat (lastIndexOf cleaned1 (CHR ''.''))
                                 in remove_all (CHR ''.'') (take lastPeriodPos cleaned1)
                                    @ ''.'' @ drop (lastPeriodPos + 1) cleaned1)
                           else remove_all (CHR ''.'') cleaned1)
                     else cleaned1)
               else cleaned1);
            isNegative = (startsWith cleaned2 ''-'' \<or> startsWith cleaned2 ''('');
            cleaned3 = (if startsWith cleaned2 ''('' \<and> endsWith cleaned2 '')''
                        then take (length cleaned2 - 2) (drop 1 cleaned2) else cleaned2);
            cleaned4 = (if startsWith cleaned3 ''-'' then drop 1 cleaned3 else cleaned3)
        in Some (isNegative, cleaned4))"

definition coerceStringToNumber :: "string \<Rightarrow> jsnumber option" where
  "coerceStringToNumber v =
     (case numberText v of
        None \<Rightarrow> None
      | Some (isNegative, cleaned) \<Rightarrow>
          (let parsed = parseFloat cleaned
           in if parsed = NaN then None
              else Some (if isNegative then negate parsed else parsed)))"


text \<open>\<open>coerceToNumber\<close>: a number is returned as it is, a string is parsed, anything else is null.\<close>

fun coerceToNumber :: "jsvalue \<Rightarrow> jsnumber option" where
  "coerceToNumber (JNum x) = Some (Finite x)"
| "coerceToNumber (JStr s) = coerceStringToNumber s"
| "coerceToNumber _ = None"

subsection \<open>The examples of the specification\<close>

lemmas parseFloat_eval =
  parseFloat_def Let_def is_space_def is_digit_def startsWith_def digits_value_def
  digit_val_def exponent_part_def

lemma numberText_examples:
  "numberText ''5.3620.787'' = Some (False, ''53620.787'')"
  "numberText ''1,234.56'' = Some (False, ''1234.56'')"
  "numberText ''1.234,56'' = Some (False, ''1234.56'')"
  "numberText ''($1,234.56)'' = Some (True, ''1234.56'')"
  "numberText [] = None"
  "numberText ''abc'' = Some (False, ''abc'')"
  "numberText ''$1,234'' = Some (False, ''1.234'')"
  "numberText ''1,234'' = Some (False, ''1234'')"
  by code_simp+

lemma parseFloat_examples:
  "parseFloat ''53620.787'' = Finite 53620.787"
  "parseFloat ''1234.56'' = Finite 1234.56"
  "parseFloat ''abc'' = NaN"
  "parseFloat ''1.234'' = Finite 1.234"
  "parseFloat ''1234'' = Finite 1234"
  by (simp_all add: parseFloat_eval)

lemma coerceToNumber_examples:
  "coerceToNumber (JStr ''5.3620.787'') = Some (Finite 53620.787)"
  "coerceToNumber (JStr ''1,234.56'') = Some (Finite 1234.56)"
  "coerceToNumber (JStr ''1.234,56'') = Some (Finite 1234.56)"
  "coerceToNumber (JStr ''($1,234.56)'') = Some (Finite (- 1234.56))"
  "coerceToNumber (JStr []) = None"
  "coerceToNumber (JStr ''abc'') = None"
  by (simp_all add: coerceStringToNumber_def numberText_examples parseFloat_examples)

subsection \<open>A currency sign before a lone comma\<close>

text \<open>
  C3. With only commas present, the comma is to be the decimal point iff at most two
  digits follow the last comma, and thousands grouping otherwise. The function takes the
  index of the last comma before it strips the currency signs and uses it on the stripped
  string: on "$1,234" the text after the comma is taken to be "34", the comma becomes the
  decimal point and the result is 1.234, while "1,234" gives 1234.
\<close>

theorem coerceToNumber_currency_then_comma:
  "coerceToNumber (JStr ''$1,234'') = Some (Finite 1.234)
   \<and> coerceToNumber (JStr ''1,234'') = Some (Finite 1234)"
  by (simp add: coerceStringToNumber_def numberText_examples parseFloat_examples)

section \<open>ValidationService\<close>

definition VALIDATION_CONFIDENCE_ZERO :: real where "VALIDATION_CONFIDENCE_ZERO = 0"
definition VALIDATION_CONFIDENCE_MODERATE :: real where "VALIDATION_CONFIDENCE_MODERATE = 0.5"
definition VALIDATION_CONFIDENCE_GOOD :: real where "VALIDATION_CONFIDENCE_GOOD = 0.7"
definition VALIDATION_CONFIDENCE_STRING :: real where "VALIDATION_CONFIDENCE_STRING = 0.8"
definition VALIDATION_CONFIDENCE_NUMBER :: real where "VALIDATION_CONFIDENCE_NUMBER = 0.9"
definition VALIDATION_CONFIDENCE_PERFECT :: real where "VALIDATION_CONFIDENCE_PERFECT = 1.0"
definition HIGH_CONFIDENCE_THRESHOLD :: real where "HIGH_CONFIDENCE_THRESHOLD = 0.9"

lemmas validation_constants =
  VALIDATION_CONFIDENCE_ZERO_def VALIDATION_CONFIDENCE_MODERATE_def
  VALIDATION_CONFIDENCE_GOOD_def VALIDATION_CONFIDENCE_STRING_def
  VALIDATION_CONFIDENCE_NUMBER_def VALIDATION_CONFIDENCE_PERFECT_def
  HIGH_CONFIDENCE_THRESHOLD_def

text \<open>
  The anchored patterns of the validators are sequences of fixed length: in a pattern,
  \<open>d\<close> stands for \<open>\d\<close> and every other character for itself.
\<close>

fun matches_pattern :: "string \<Rightarrow> string \<Rightarrow> bool" where
  "matches_pattern [] [] = True"
| "matches_pattern (p # ps) (c # cs) =
     ((if p = CHR ''d'' then is_digit c else p = c) \<and> matches_pattern ps cs)"
| "matches_pattern _ _ = False"

text \<open>
  \<open>validateDateFormat\<close>. Whether \<open>new Date(text)\<close> is a valid date is left to the
  JavaScript engine; it is the parameter \<open>date_parses\<close>. A date built from numeric
  year, month and day is always valid.
\<close>

definition validateDateFormat :: "(string \<Rightarrow> bool) \<Rightarrow> jsvalue \<Rightarrow> bool" where
  "validateDateFormat date_parses v =
     (case v of
        JStr s \<Rightarrow>
          if matches_pattern ''dddd-dd-dd'' s then date_parses s
          else if matches_pattern ''d/d/dddd'' s \<or> matches_pattern ''d/dd/dddd'' s
                  \<or> matches_pattern ''dd/d/dddd'' s \<or> matches_pattern ''dd/dd/dddd'' s
               then True
          else date_parses s
      | _ \<Rightarrow> False)"

definition validateTaxId :: "jsvalue \<Rightarrow> bool" where
  "validateTaxId v =
     (case v of
        JStr s \<Rightarrow>
          if matches_pattern ''ddd-dd-dddd'' s then True
          else if matches_pattern ''dd-ddddddd'' s then True
          else matches_pattern ''ddddddddd'' s
      | _ \<Rightarrow> False)"

text \<open>\<open>value.replace(/[\s-]/g, '')\<close>.\<close>

definition strip_space_hyphen :: "string \<Rightarrow> string" where
  "strip_space_hyphen s = filter (\<lambda>c. \<not> (is_space c \<or> c = CHR ''-'')) s"

definition validateAccountNumber :: "jsvalue \<Rightarrow> bool" where
  "validateAccountNumber v =
     (case v of
        JStr s \<Rightarrow>
          (let cleaned = strip_space_hyphen s;
               stars = takeWhile (\<lambda>c. c = CHR ''*'') cleaned;
               rest = dropWhile (\<lambda>c. c = CHR ''*'') cleaned
           in if length stars \<ge> 4 \<and> length rest = 4 \<and> list_all is_digit rest then True
              else list_all is_digit cleaned \<and> 8 \<le> length cleaned \<and> length cleaned \<le> 17)
      | _ \<Rightarrow> False)"

definition validateRoutingNumber :: "jsvalue \<Rightarrow> bool" where
  "validateRoutingNumber v =
     (case v of
        JStr s \<Rightarrow>
          (let cleaned = strip_space_hyphen s in
           if \<not> (length cleaned = 9 \<and> list_all is_digit cleaned) then False
           else
             let digits = map digit_val cleaned;
                 checksum =
                   3 * (digits ! 0 + digits ! 3 + digits ! 6) +
                   7 * (digits ! 1 + digits ! 4 + digits ! 7) +
                   (digits ! 2 + digits ! 5 + digits ! 8)
             in checksum mod 10 = 0)
      | _ \<Rightarrow> False)"

text \<open>\<open>/^[^\s@]+@[^\s@]+\.[^\s@]+$/\<close>.\<close>

definition validateEmail :: "jsvalue \<Rightarrow> bool" where
  "validateEmail v =
     (case v of
        JStr s \<Rightarrow>
          (let plain = (\<lambda>c. \<not> is_space c \<and> c \<noteq> CHR ''@'');
               local_part = takeWhile (\<lambda>c. c \<noteq> CHR ''@'') s;
               rest = drop (length local_part + 1) s
           in local_part \<noteq> [] \<and> list_all plain local_part
              \<and> length local_part < length s
              \<and> list_all plain rest
              \<and> CHR ''.'' \<in> set (butlast (tl rest)))
      | _ \<Rightarrow> False)"

definition validatePhone :: "jsvalue \<Rightarrow> bool" where
  "validatePhone v =
     (case v of
        JStr s \<Rightarrow>
          (let cleaned = filter (\<lambda>c. \<not> (is_space c \<or> c \<in> set ''().-'')) s
           in list_all is_digit cleaned \<and> (length cleaned = 10 \<or> length cleaned = 11))
      | _ \<Rightarrow> False)"

text \<open>The private \<open>calculateValidationConfidence(fieldName, value)\<close> of the ValidationService.\<close>

definition ValidationService_calculateValidationConfidence ::
  "(string \<Rightarrow> bool) \<Rightarrow> string \<Rightarrow> jsvalue \<Rightarrow> real" where
  "ValidationService_calculateValidationConfidence date_parses fieldName v =
     (if v = JNull \<or> v = JUndefined \<or> v = JStr [] then VALIDATION_CONFIDENCE_ZERO
      else if str_includes fieldName ''date'' then
        (if validateDateFormat date_parses v then VALIDATION_CONFIDENCE_PERFECT
         else VALIDATION_CONFIDENCE_MODERATE)
      else if str_includes fieldName ''ssn'' \<or> str_includes fieldName ''ein'' then
        (if validateTaxId v then VALIDATION_CONFIDENCE_PERFECT
         else VALIDATION_CONFIDENCE_MODERATE)
      else if str_includes fieldName ''account_number'' then
        (if validateAccountNumber v then VALIDATION_CONFIDENCE_PERFECT
         else VALIDATION_CONFIDENCE_GOOD)
      else if str_includes fieldName ''routing_number'' then
        (if validateRoutingNumber v then VALIDATION_CONFIDENCE_PERFECT
         else VALIDATION_CONFIDENCE_MODERATE)
      else if str_includes fieldName ''email'' then
        (if validateEmail v then VALIDATION_CONFIDENCE_PERFECT
         else VALIDATION_CONFIDENCE_MODERATE)
      else if str_includes fieldName ''phone'' then
        (if validatePhone v then VALIDATION_CONFIDENCE_PERFECT
         else VALIDATION_CONFIDENCE_GOOD)
      else (case v of
              JStr s \<Rightarrow> VALIDATION_CONFIDENCE_STRING
            | JNum x \<Rightarrow> VALIDATION_CONFIDENCE_NUMBER
            | JBool b \<Rightarrow> VALIDATION_CONFIDENCE_NUMBER
            | _ \<Rightarrow> VALIDATION_CONFIDENCE_MODERATE))"

subsection \<open>The ABA checksum\<close>

definition aba_checksum :: "nat list \<Rightarrow> nat" where
  "aba_checksum ds =
     3 * (ds ! 0 + ds ! 3 + ds ! 6) + 7 * (ds ! 1 + ds ! 4 + ds ! 7) + (ds ! 2 + ds ! 5 + ds ! 8)"

lemma digit_val_lt: "is_digit c \<Longrightarrow> digit_val c < 10"
  by (auto simp: is_digit_def digit_val_def)

lemma digit_val_inj: "is_digit c \<Longrightarrow> is_digit d \<Longrightarrow> digit_val c = digit_val d \<Longrightarrow> c = d"
  by (auto simp: is_digit_def digit_val_def)

lemma digit_kept: "is_digit c \<Longrightarrow> \<not> (is_space c \<or> c = CHR ''-'')"
  by (auto simp: is_digit_def is_space_def)

lemma below_ten:
  "x < (10::nat) \<Longrightarrow>
     x = 0 \<or> x = 1 \<or> x = 2 \<or> x = 3 \<or> x = 4 \<or> x = 5 \<or> x = 6 \<or> x = 7 \<or> x = 8 \<or> x = 9"
proof -
  assume "x < 10"
  then have "x = 9 \<or> x < 9" by linarith
  moreover have "x < 9 \<Longrightarrow>
      x = 0 \<or> x = 1 \<or> x = 2 \<or> x = 3 \<or> x = 4 \<or> x = 5 \<or> x = 6 \<or> x = 7 \<or> x = 8"
    by linarith
  ultimately show ?thesis by blast
qed

text \<open>The weights 3, 7 and 1 are invertible modulo 10.\<close>

lemma residue_inj:
  fixes x y :: nat
  assumes "x < 10" "y < 10"
    and "(3 * x) mod 10 = (3 * y) mod 10 \<or> (7 * x) mod 10 = (7 * y) mod 10
         \<or> x mod 10 = y mod 10"
  shows "y = x"
  using below_ten[OF assms(1)] below_ten[OF assms(2)] assms(3)
  by (elim disjE) simp_all

lemma drop_multiple:
  fixes S t :: nat
  assumes "S mod 10 = 0"
  shows "(S + t) mod 10 = t mod 10"
  using assms by (metis add_0 mod_add_left_eq)

lemma weight_shift:
  fixes x y S S' :: nat
  assumes "S mod 10 = 0" "S' mod 10 = 0" "x < 10" "y < 10"
    and "S' + 3 * x = S + 3 * y \<or> S' + 7 * x = S + 7 * y \<or> S' + x = S + y"
  shows "y = x"
proof -
  have "(3 * x) mod 10 = (3 * y) mod 10 \<or> (7 * x) mod 10 = (7 * y) mod 10
        \<or> x mod 10 = y mod 10"
    using assms(5) drop_multiple[OF assms(1)] drop_multiple[OF assms(2)] by metis
  then show ?thesis
    using residue_inj[OF assms(3) assms(4)] by simp
qed

lemma checksum_shift:
  assumes "length ds = 9" "j < 9"
  shows "aba_checksum (ds[j := y]) + 3 * ds ! j = aba_checksum ds + 3 * y
       \<or> aba_checksum (ds[j := y]) + 7 * ds ! j = aba_checksum ds + 7 * y
       \<or> aba_checksum (ds[j := y]) + ds ! j = aba_checksum ds + y"
proof -
  consider "j = 0" | "j = 1" | "j = 2" | "j = 3" | "j = 4" | "j = 5" | "j = 6" | "j = 7"
    | "j = 8"
    using assms(2) by linarith
  then show ?thesis
    using assms(1) by cases (simp_all add: aba_checksum_def)
qed

lemma checksum_change:
  assumes "length ds = 9" "j < 9" "ds ! j < 10" "y < 10"
    and "aba_checksum ds mod 10 = 0" "aba_checksum (ds[j := y]) mod 10 = 0"
  shows "y = ds ! j"
  using weight_shift[OF assms(5) assms(6) assms(3) assms(4)
          checksum_shift[OF assms(1) assms(2)]] .

lemma filter_update_kept:
  assumes "i < length s" "P (s ! i)" "P d"
  shows "filter P (s[i := d]) = (filter P s)[length (filter P (take i s)) := d]
         \<and> length (filter P (take i s)) < length (filter P s)
         \<and> filter P s ! length (filter P (take i s)) = s ! i"
proof -
  have s: "s = take i s @ s ! i # drop (Suc i) s"
    using assms(1) by (simp add: id_take_nth_drop)
  have u: "s[i := d] = take i s @ d # drop (Suc i) s"
    using assms(1) by (simp add: upd_conv_take_nth_drop)
  have f: "filter P s = filter P (take i s) @ s ! i # filter P (drop (Suc i) s)"
    using assms(2) by (subst s) simp
  show ?thesis
    using assms(2,3) by (simp add: u f nth_append list_update_append)
qed

lemma validateRoutingNumber_iff:
  "validateRoutingNumber (JStr s) \<longleftrightarrow>
     length (strip_space_hyphen s) = 9 \<and> list_all is_digit (strip_space_hyphen s)
     \<and> aba_checksum (map digit_val (strip_space_hyphen s)) mod 10 = 0"
  by (auto simp: validateRoutingNumber_def Let_def aba_checksum_def)

lemma validateRoutingNumber_string: "validateRoutingNumber v \<Longrightarrow> \<exists>s. v = JStr s"
  by (cases v) (simp_all add: validateRoutingNumber_def)

lemma validateRoutingNumber_single_digit:
  assumes v: "validateRoutingNumber (JStr s)"
    and i: "i < length s" and si: "is_digit (s ! i)" and d: "is_digit d" and ne: "d \<noteq> s ! i"
  shows "\<not> validateRoutingNumber (JStr (s[i := d]))"
proof
  assume v': "validateRoutingNumber (JStr (s[i := d]))"
  let ?P = "\<lambda>c. \<not> (is_space c \<or> c = CHR ''-'')"
  let ?c = "strip_space_hyphen s"
  let ?j = "length (filter ?P (take i s))"
  have upd: "strip_space_hyphen (s[i := d]) = ?c[?j := d]"
    and j: "?j < length ?c" and cj: "?c ! ?j = s ! i"
    using filter_update_kept[of i s ?P d] i digit_kept[OF si] digit_kept[OF d]
    by (simp_all add: strip_space_hyphen_def)
  from v have len: "length ?c = 9" and chk: "aba_checksum (map digit_val ?c) mod 10 = 0"
    by (simp_all add: validateRoutingNumber_iff)
  from v' upd have chk': "aba_checksum ((map digit_val ?c)[?j := digit_val d]) mod 10 = 0"
    by (simp add: validateRoutingNumber_iff map_update)
  have "digit_val d = map digit_val ?c ! ?j"
    using checksum_change[of "map digit_val ?c" ?j "digit_val d"] len j cj chk chk'
      digit_val_lt[OF si] digit_val_lt[OF d]
    by simp
  then have "digit_val d = digit_val (s ! i)"
    using j cj by simp
  then show False
    using digit_val_inj[OF d si] ne by simp
qed

lemma routing_number_confidence:
  assumes "str_includes f ''routing_number''"
    and "\<not> str_includes f ''date''" "\<not> str_includes f ''ssn''" "\<not> str_includes f ''ein''"
    and "\<not> str_includes f ''account_number''"
    and "v \<noteq> JNull" "v \<noteq> JUndefined" "v \<noteq> JStr []"
  shows "ValidationService_calculateValidationConfidence D f v
           = (if validateRoutingNumber v then 1.0 else 0.5)"
  using assms
  by (simp add: ValidationService_calculateValidationConfidence_def validation_constants)

text \<open>
  C7 (amended). \<open>validateRoutingNumber\<close> accepts a value iff it is a string that, with
  white space and hyphens removed, consists of exactly 9 digits whose weighted sum
  3(d1+d4+d7) + 7(d2+d5+d8) + (d3+d6+d9) is divisible by 10; "021000021" is accepted;
  replacing one digit of an accepted string by a different digit gives a rejected string;
  and for a field whose name contains "routing_number" (and none of "date", "ssn", "ein",
  "account_number", which are tested first) a value other than null, undefined and the
  empty string gets validation confidence 1.0 when it is accepted and 0.5 when it is not.
\<close>

theorem validateRoutingNumber_aba:
  "(validateRoutingNumber v \<longleftrightarrow>
      (\<exists>s. v = JStr s \<and> length (strip_space_hyphen s) = 9
           \<and> list_all is_digit (strip_space_hyphen s)
           \<and> (let d = map digit_val (strip_space_hyphen s)
              in (3 * (d ! 0 + d ! 3 + d ! 6) + 7 * (d ! 1 + d ! 4 + d ! 7)
                  + (d ! 2 + d ! 5 + d ! 8)) mod 10 = 0)))
   \<and> validateRoutingNumber (JStr ''021000021'')
   \<and> (validateRoutingNumber (JStr s') \<and> i < length s' \<and> is_digit (s' ! i) \<and> is_digit c
        \<and> c \<noteq> s' ! i \<longrightarrow> \<not> validateRoutingNumber (JStr (s'[i := c])))
   \<and> (str_includes f ''routing_number'' \<and> \<not> str_includes f ''date''
        \<and> \<not> str_includes f ''ssn'' \<and> \<not> str_includes f ''ein''
        \<and> \<not> str_includes f ''account_number''
        \<and> w \<noteq> JNull \<and> w \<noteq> JUndefined \<and> w \<noteq> JStr [] \<longrightarrow>
      ValidationService_calculateValidationConfidence D f w
        = (if validateRoutingNumber w then 1.0 else 0.5))"
proof (intro conjI impI)
  show "validateRoutingNumber v \<longleftrightarrow>
      (\<exists>s. v = JStr s \<and> length (strip_space_hyphen s) = 9
           \<and> list_all is_digit (strip_space_hyphen s)
           \<and> (let d = map digit_val (strip_space_hyphen s)
              in (3 * (d ! 0 + d ! 3 + d ! 6) + 7 * (d ! 1 + d ! 4 + d ! 7)
                  + (d ! 2 + d ! 5 + d ! 8)) mod 10 = 0))"
    using validateRoutingNumber_string[of v]
    by (auto simp: validateRoutingNumber_iff aba_checksum_def Let_def)
next
  show "validateRoutingNumber (JStr ''021000021'')"
    by code_simp
next
  assume "validateRoutingNumber (JStr s') \<and> i < length s' \<and> is_digit (s' ! i) \<and> is_digit c
        \<and> c \<noteq> s' ! i"
  then show "\<not> validateRoutingNumber (JStr (s'[i := c]))"
    using validateRoutingNumber_single_digit[of s' i c] by blast
next
  assume "str_includes f ''routing_number'' \<and> \<not> str_includes f ''date''
        \<and> \<not> str_includes f ''ssn'' \<and> \<not> str_includes f ''ein''
        \<and> \<not> str_includes f ''account_number''
        \<and> w \<noteq> JNull \<and> w \<noteq> JUndefined \<and> w \<noteq> JStr []"
  then show "ValidationService_calculateValidationConfidence D f w
        = (if validateRoutingNumber w then 1.0 else 0.5)"
    using routing_number_confidence[of f w D] by blast
qed

theorem validateRoutingNumber_aba_witness:
  "validateRoutingNumber (JStr ''021000021'')
   \<and> \<not> validateRoutingNumber (JStr ''121000021'')
   \<and> ValidationService_calculateValidationConfidence (\<lambda>s. False) ''routing_number''
        (JStr ''021000021'') = 1.0
   \<and> ValidationService_calculateValidationConfidence (\<lambda>s. False) ''routing_number''
        (JStr ''121000021'') = 0.5"
proof -
  have a: "validateRoutingNumber (JStr ''021000021'')"
    and b: "\<not> validateRoutingNumber (JStr ''121000021'')"
    by code_simp+
  have n: "str_includes ''routing_number'' ''routing_number''"
    "\<not> str_includes ''routing_number'' ''date''"
    "\<not> str_includes ''routing_number'' ''ssn''"
    "\<not> str_includes ''routing_number'' ''ein''"
    "\<not> str_includes ''routing_number'' ''account_number''"
    by code_simp+
  show ?thesis
    using validateRoutingNumber_aba
            [of "JStr ''021000021''" "''021000021''" 0 "CHR ''1''" "''routing_number''"
                "JStr ''021000021''" "\<lambda>s. False"]
          validateRoutingNumber_aba
            [of "JStr ''021000021''" "''021000021''" 0 "CHR ''1''" "''routing_number''"
                "JStr ''121000021''" "\<lambda>s. False"]
          a b n
    by simp
qed

text \<open>
  As stated, the claim gives every invalid routing number the confidence 0.5; the empty
  string is rejected by \<open>validateRoutingNumber\<close> and gets 0.
\<close>

theorem routing_number_empty_counterexample:
  "\<not> validateRoutingNumber (JStr [])
   \<and> ValidationService_calculateValidationConfidence (\<lambda>s. False) ''routing_number'' (JStr [])
       = 0"
  by (simp add: validateRoutingNumber_def strip_space_hyphen_def
        ValidationService_calculateValidationConfidence_def validation_constants)

section \<open>OllamaClient.chatWithTools and the ToolRegistry\<close>

definition DEFAULT_MAX_ITERATIONS :: nat where "DEFAULT_MAX_ITERATIONS = 3"

datatype role = System | User | Assistant | Tool

text \<open>
  A tool call \<open>{function: {name, arguments}}\<close>: the arguments are a JSON text or an
  object already parsed. The type \<open>'j\<close> is the type of parsed JSON values.
\<close>

record 'j tool_call =
  function_name :: string
  function_arguments :: "string + 'j"

record 'j OllamaMessage =
  role :: role
  content :: string
  tool_calls :: "'j tool_call list option"

record 'j chat_result =
  response :: "'j OllamaMessage"
  toolUsed :: bool
  iterations :: nat

text \<open>
  \<open>JSON.parse\<close> is a built-in of the language and a parameter of the model: it returns
  the parsed value or throws a SyntaxError.
\<close>

definition parseToolArguments :: "(string \<Rightarrow> js_error + 'j) \<Rightarrow> string + 'j \<Rightarrow> js_error + 'j" where
  "parseToolArguments JSON_parse args =
     (case args of Inl text \<Rightarrow> JSON_parse text | Inr obj \<Rightarrow> Inr obj)"

text \<open>\<open>JSON.stringify\<close> of a string: the quoted text with the escapes of ECMA-262.\<close>

definition hex_digit :: "nat \<Rightarrow> char" where
  "hex_digit n = ''0123456789abcdef'' ! n"

definition json_escape_char :: "char \<Rightarrow> string" where
  "json_escape_char c =
     (if c = CHR 0x22 then [CHR 0x5C, CHR 0x22]
      else if c = CHR 0x5C then [CHR 0x5C, CHR 0x5C]
      else if c = CHR 0x08 then [CHR 0x5C, CHR ''b'']
      else if c = CHR 0x0C then [CHR 0x5C, CHR ''f'']
      else if c = CHR 0x0A then [CHR 0x5C, CHR ''n'']
      else if c = CHR 0x0D then [CHR 0x5C, CHR ''r'']
      else if c = CHR 0x09 then [CHR 0x5C, CHR ''t'']
      else if (of_char c :: nat) < 32
        then [CHR 0x5C, CHR ''u'', CHR ''0'', CHR ''0'',
              hex_digit ((of_char c :: nat) div 16), hex_digit ((of_char c :: nat) mod 16)]
      else [c])"

definition json_quote :: "string \<Rightarrow> string" where
  "json_quote s = [CHR 0x22] @ concat (map json_escape_char s) @ [CHR 0x22]"

text \<open>\<open>createErrorResponse(error) = JSON.stringify({ error: String(error) })\<close>.\<close>

definition createErrorResponse :: "js_error \<Rightarrow> string" where
  "createErrorResponse e =
     [CHR ''{'', CHR 0x22] @ ''error'' @ [CHR 0x22, CHR '':''] @ json_quote (error_to_string e)
     @ [CHR ''}'']"

text \<open>
  The \<open>try { toolResult = await toolHandler(toolName, toolArgs) } catch\<close> block of the
  loop: the handler's result, or the error envelope when the handler throws.
\<close>

definition callToolHandler :: "(string \<Rightarrow> 'j \<Rightarrow> js_error + string) \<Rightarrow> string \<Rightarrow> 'j \<Rightarrow> string" where
  "callToolHandler toolHandler toolName toolArgs =
     (case toolHandler toolName toolArgs of
        Inr toolResult \<Rightarrow> toolResult
      | Inl e \<Rightarrow> createErrorResponse e)"

text \<open>
  The body of the loop over the tool calls of one reply. The arguments are parsed outside
  the try block, so a SyntaxError of \<open>JSON.parse\<close> leaves the function. The usage log is
  an external sink whose failures are caught; it is not part of the model.
\<close>

definition runToolCall ::
  "(string \<Rightarrow> js_error + 'j) \<Rightarrow> (string \<Rightarrow> 'j \<Rightarrow> js_error + string) \<Rightarrow> 'j OllamaMessage
     \<Rightarrow> 'j OllamaMessage list \<Rightarrow> 'j tool_call \<Rightarrow> js_error + 'j OllamaMessage list" where
  "runToolCall JSON_parse toolHandler assistantMessage currentMessages toolCall =
     (case parseToolArguments JSON_parse (function_arguments toolCall) of
        Inl e \<Rightarrow> Inl e
      | Inr toolArgs \<Rightarrow>
          Inr (currentMessages @
               [assistantMessage,
                \<lparr>role = Tool,
                 content = callToolHandler toolHandler (function_name toolCall) toolArgs,
                 tool_calls = None\<rparr>]))"

fun runToolCalls ::
  "(string \<Rightarrow> js_error + 'j) \<Rightarrow> (string \<Rightarrow> 'j \<Rightarrow> js_error + string) \<Rightarrow> 'j OllamaMessage
     \<Rightarrow> 'j OllamaMessage list \<Rightarrow> 'j tool_call list \<Rightarrow> js_error + 'j OllamaMessage list" where
  "runToolCalls JSON_parse toolHandler assistantMessage currentMessages [] = Inr currentMessages"
| "runToolCalls JSON_parse toolHandler assistantMessage currentMessages (toolCall # rest) =
     (case runToolCall JSON_parse toolHandler assistantMessage currentMessages toolCall of
        Inl e \<Rightarrow> Inl e
      | Inr currentMessages' \<Rightarrow>
          runToolCalls JSON_parse toolHandler assistantMessage currentMessages' rest)"

text \<open>The tool calls a reply carries: none when the field is absent or empty.\<close>

definition the_calls :: "'j OllamaMessage \<Rightarrow> 'j tool_call list" where
  "the_calls m = (case tool_calls m of None \<Rightarrow> [] | Some cs \<Rightarrow> cs)"

text \<open>
  The while loop. \<open>chat\<close> is the request to the LLM service with the current messages
  (the tools and the format do not change during a call): a reply or a thrown error.
\<close>

function chatLoop ::
  "nat \<Rightarrow> ('j OllamaMessage list \<Rightarrow> js_error + 'j OllamaMessage) \<Rightarrow> (string \<Rightarrow> js_error + 'j)
     \<Rightarrow> (string \<Rightarrow> 'j \<Rightarrow> js_error + string) \<Rightarrow> 'j OllamaMessage list \<Rightarrow> bool \<Rightarrow> nat
     \<Rightarrow> js_error + 'j chat_result" where
  "chatLoop maxIterations chat JSON_parse toolHandler currentMessages used iters =
     (if iters < maxIterations then
        (case chat currentMessages of
           Inl e \<Rightarrow> Inl e
         | Inr assistantMessage \<Rightarrow>
             if the_calls assistantMessage \<noteq> [] then
               (case runToolCalls JSON_parse toolHandler assistantMessage currentMessages
                       (the_calls assistantMessage) of
                  Inl e \<Rightarrow> Inl e
                | Inr currentMessages' \<Rightarrow>
                    chatLoop maxIterations chat JSON_parse toolHandler currentMessages' True
                      (iters + 1))
             else Inr \<lparr>response = assistantMessage, toolUsed = used, iterations = iters + 1\<rparr>)
      else Inl (Error (''Max tool iterations ('' @ show_nat maxIterations @ '') exceeded'')))"
  by pat_completeness auto
termination
  by (relation "measure (\<lambda>(maxIterations, chat, JSON_parse, toolHandler, ms, used, iters).
                          maxIterations - iters)") auto

declare chatLoop.simps [simp del]

definition chatWithTools ::
  "('j OllamaMessage list \<Rightarrow> js_error + 'j OllamaMessage) \<Rightarrow> (string \<Rightarrow> js_error + 'j)
     \<Rightarrow> (string \<Rightarrow> 'j \<Rightarrow> js_error + string) \<Rightarrow> nat option \<Rightarrow> 'j OllamaMessage list
     \<Rightarrow> js_error + 'j chat_result" where
  "chatWithTools chat JSON_parse toolHandler maxIterations_option messages =
     chatLoop (case maxIterations_option of None \<Rightarrow> DEFAULT_MAX_ITERATIONS | Some n \<Rightarrow> n)
       chat JSON_parse toolHandler messages False 0"

text \<open>The registry maps a tool name to its handler.\<close>

definition executeTool ::
  "(string \<rightharpoonup> ('j \<Rightarrow> js_error + string)) \<Rightarrow> string \<Rightarrow> 'j \<Rightarrow> js_error + string" where
  "executeTool tools toolName args =
     (case tools toolName of
        None \<Rightarrow> Inl (Error (''Tool not found: '' @ toolName))
      | Some handler \<Rightarrow> handler args)"

definition createToolHandler ::
  "(string \<rightharpoonup> ('j \<Rightarrow> js_error + string)) \<Rightarrow> string \<Rightarrow> 'j \<Rightarrow> js_error + string" where
  "createToolHandler tools = (\<lambda>toolName args. executeTool tools toolName args)"

subsection \<open>The turns appended for one reply\<close>

definition args_ok :: "(string \<Rightarrow> js_error + 'j) \<Rightarrow> 'j tool_call \<Rightarrow> bool" where
  "args_ok JSON_parse c = (\<not> isl (parseToolArguments JSON_parse (function_arguments c)))"

definition toolTurns ::
  "(string \<Rightarrow> js_error + 'j) \<Rightarrow> (string \<Rightarrow> 'j \<Rightarrow> js_error + string) \<Rightarrow> 'j OllamaMessage
     \<Rightarrow> 'j OllamaMessage list" where
  "toolTurns JSON_parse toolHandler assistantMessage =
     concat (map (\<lambda>c. [assistantMessage,
                       \<lparr>role = Tool,
                        content = callToolHandler toolHandler (function_name c)
                                    (projr (parseToolArguments JSON_parse (function_arguments c))),
                        tool_calls = None\<rparr>])
                 (the_calls assistantMessage))"

lemma runToolCalls_turns:
  "list_all (args_ok JSON_parse) cs \<Longrightarrow>
   runToolCalls JSON_parse toolHandler am ms cs
     = Inr (ms @ concat (map (\<lambda>c. [am,
                       \<lparr>role = Tool,
                        content = callToolHandler toolHandler (function_name c)
                                    (projr (parseToolArguments JSON_parse (function_arguments c))),
                        tool_calls = None\<rparr>]) cs))"
proof (induction cs arbitrary: ms)
  case Nil
  then show ?case by simp
next
  case (Cons c cs)
  then show ?case
    by (cases "parseToolArguments JSON_parse (function_arguments c)")
       (simp_all add: runToolCall_def args_ok_def)
qed

lemma runToolCalls_error:
  "runToolCalls JSON_parse toolHandler am ms cs = Inl e \<Longrightarrow> \<exists>text. JSON_parse text = Inl e"
proof (induction cs arbitrary: ms)
  case Nil
  then show ?case by simp
next
  case (Cons c cs)
  then show ?case
    by (auto simp: runToolCall_def parseToolArguments_def split: sum.splits)
qed

lemma chatLoop_step:
  assumes "iters < maxIterations" "chat ms = Inr am" "the_calls am \<noteq> []"
    and "list_all (args_ok JSON_parse) (the_calls am)"
  shows "chatLoop maxIterations chat JSON_parse toolHandler ms used iters
           = chatLoop maxIterations chat JSON_parse toolHandler
               (ms @ toolTurns JSON_parse toolHandler am) True (iters + 1)"
  using assms runToolCalls_turns[OF assms(4), of toolHandler am ms]
  by (subst chatLoop.simps) (simp add: toolTurns_def)

lemma chatLoop_final:
  assumes "iters < maxIterations" "chat ms = Inr am" "the_calls am = []"
  shows "chatLoop maxIterations chat JSON_parse toolHandler ms used iters
           = Inr \<lparr>response = am, toolUsed = used, iterations = iters + 1\<rparr>"
  using assms by (subst chatLoop.simps) simp

lemma chatLoop_exceeded:
  "chatLoop maxIterations chat JSON_parse toolHandler ms used maxIterations
     = Inl (Error (''Max tool iterations ('' @ show_nat maxIterations @ '') exceeded''))"
  by (subst chatLoop.simps) simp

lemma chatLoop_unfold:
  "iters < maxIterations \<Longrightarrow>
   chatLoop maxIterations chat JSON_parse toolHandler ms used iters =
     (case chat ms of
        Inl e \<Rightarrow> Inl e
      | Inr am \<Rightarrow>
          if the_calls am \<noteq> [] then
            (case runToolCalls JSON_parse toolHandler am ms (the_calls am) of
               Inl e \<Rightarrow> Inl e
             | Inr ms' \<Rightarrow> chatLoop maxIterations chat JSON_parse toolHandler ms' True (iters + 1))
          else Inr \<lparr>response = am, toolUsed = used, iterations = iters + 1\<rparr>)"
  by (subst chatLoop.simps) simp

lemma chatLoop_errors:
  "chatLoop maxIterations chat JSON_parse toolHandler ms used iters = Inl e \<Longrightarrow>
     e = Error (''Max tool iterations ('' @ show_nat maxIterations @ '') exceeded'')
     \<or> (\<exists>msgs. chat msgs = Inl e) \<or> (\<exists>text. JSON_parse text = Inl e)"
proof (induction "maxIterations - iters" arbitrary: ms used iters)
  case 0
  then have "chatLoop maxIterations chat JSON_parse toolHandler ms used iters
               = Inl (Error (''Max tool iterations ('' @ show_nat maxIterations @ '') exceeded''))"
    by (subst chatLoop.simps) simp
  with "0.prems" show ?case by simp
next
  case (Suc n)
  then have lt: "iters < maxIterations" by simp
  note run = Suc.prems[unfolded chatLoop_unfold[OF lt]]
  show ?case
  proof (cases "chat ms")
    case (Inl e')
    with run have "e' = e" by simp
    with Inl show ?thesis by blast
  next
    case (Inr am)
    show ?thesis
    proof (cases "the_calls am = []")
      case True
      with Inr run show ?thesis by simp
    next
      case calls: False
      show ?thesis
      proof (cases "runToolCalls JSON_parse toolHandler am ms (the_calls am)")
        case (Inl e')
        with \<open>chat ms = Inr am\<close> calls run have "e' = e" by simp
        with Inl runToolCalls_error[of JSON_parse toolHandler am ms "the_calls am" e']
        show ?thesis by blast
      next
        case (Inr ms')
        with \<open>chat ms = Inr am\<close> calls run
        have next_run:
          "chatLoop maxIterations chat JSON_parse toolHandler ms' True (iters + 1) = Inl e"
          by simp
        have "n = maxIterations - (iters + 1)"
          using Suc.hyps(2) by simp
        from Suc.hyps(1)[OF this next_run] show ?thesis .
      qed
    qed
  qed
qed

lemma chatLoop_iterations:
  "chatLoop maxIterations chat JSON_parse toolHandler ms used iters = Inr res \<Longrightarrow>
     iters < iterations res \<and> iterations res \<le> maxIterations"
proof (induction "maxIterations - iters" arbitrary: ms used iters)
  case 0
  then have "chatLoop maxIterations chat JSON_parse toolHandler ms used iters
               = Inl (Error (''Max tool iterations ('' @ show_nat maxIterations @ '') exceeded''))"
    by (subst chatLoop.simps) simp
  with "0.prems" show ?case by simp
next
  case (Suc n)
  then have lt: "iters < maxIterations" by simp
  note run = Suc.prems[unfolded chatLoop_unfold[OF lt]]
  show ?case
  proof (cases "chat ms")
    case (Inl e')
    with run show ?thesis by simp
  next
    case (Inr am)
    show ?thesis
    proof (cases "the_calls am = []")
      case True
      with Inr run lt show ?thesis by auto
    next
      case calls: False
      show ?thesis
      proof (cases "runToolCalls JSON_parse toolHandler am ms (the_calls am)")
        case (Inl e')
        with \<open>chat ms = Inr am\<close> calls run show ?thesis by simp
      next
        case (Inr ms')
        with \<open>chat ms = Inr am\<close> calls run
        have next_run:
          "chatLoop maxIterations chat JSON_parse toolHandler ms' True (iters + 1) = Inr res"
          by simp
        have "n = maxIterations - (iters + 1)"
          using Suc.hyps(2) by simp
        from Suc.hyps(1)[OF this next_run] show ?thesis by simp
      qed
    qed
  qed
qed

lemma max_iterations_message:
  "''Max tool iterations ('' @ show_nat 3 @ '') exceeded'' = ''Max tool iterations (3) exceeded''"
  by code_simp

lemma callToolHandler_caught:
  "toolHandler n a = Inl err \<Longrightarrow> callToolHandler toolHandler n a = createErrorResponse err"
  by (simp add: callToolHandler_def)

lemma callToolHandler_result:
  "toolHandler n a = Inr s \<Longrightarrow> callToolHandler toolHandler n a = s"
  by (simp add: callToolHandler_def)

text \<open>The first call whose argument text is rejected ends the run of the calls.\<close>

lemma runToolCalls_fail:
  "list_all (args_ok JSON_parse) pre \<Longrightarrow>
   parseToolArguments JSON_parse (function_arguments c) = Inl e \<Longrightarrow>
   runToolCalls JSON_parse toolHandler am ms (pre @ c # post) = Inl e"
proof (induction pre arbitrary: ms)
  case Nil
  then show ?case by (simp add: runToolCall_def)
next
  case (Cons p pre)
  then show ?case
    by (cases "parseToolArguments JSON_parse (function_arguments p)")
       (simp_all add: runToolCall_def args_ok_def)
qed

lemma chatLoop_malformed:
  assumes "iters < maxIterations" "chat ms = Inr am" "the_calls am = pre @ c # post"
    and "list_all (args_ok JSON_parse) pre"
    and "parseToolArguments JSON_parse (function_arguments c) = Inl e"
  shows "chatLoop maxIterations chat JSON_parse toolHandler ms used iters = Inl e"
  using assms runToolCalls_fail[OF assms(4) assms(5), of toolHandler am ms post]
  by (simp add: chatLoop_unfold)

subsection \<open>The bounded tool-call loop\<close>

lemma chatWithTools_three_rounds:
  "(let run = chatWithTools chat JSON_parse toolHandler None m0;
        m1 = m0 @ toolTurns JSON_parse toolHandler r1;
        m2 = m1 @ toolTurns JSON_parse toolHandler r2;
        calls_ok = (\<lambda>r. the_calls r \<noteq> [] \<and> list_all (args_ok JSON_parse) (the_calls r))
    in (chat m0 = Inr r1 \<and> the_calls r1 = [] \<longrightarrow>
          run = Inr \<lparr>response = r1, toolUsed = False, iterations = 1\<rparr>)
     \<and> (chat m0 = Inr r1 \<and> calls_ok r1 \<and> chat m1 = Inr r2 \<and> the_calls r2 = [] \<longrightarrow>
          run = Inr \<lparr>response = r2, toolUsed = True, iterations = 2\<rparr>)
     \<and> (chat m0 = Inr r1 \<and> calls_ok r1 \<and> chat m1 = Inr r2 \<and> calls_ok r2
          \<and> chat m2 = Inr r3 \<and> the_calls r3 = [] \<longrightarrow>
          run = Inr \<lparr>response = r3, toolUsed = True, iterations = 3\<rparr>)
     \<and> (chat m0 = Inr r1 \<and> calls_ok r1 \<and> chat m1 = Inr r2 \<and> calls_ok r2
          \<and> chat m2 = Inr r3 \<and> calls_ok r3 \<longrightarrow>
          run = Inl (Error ''Max tool iterations (3) exceeded''))
     \<and> (\<forall>res. run = Inr res \<longrightarrow> iterations res \<le> 3)
     \<and> (\<forall>e. run = Inl e \<longrightarrow>
            e = Error ''Max tool iterations (3) exceeded''
            \<or> (\<exists>msgs. chat msgs = Inl e) \<or> (\<exists>text. JSON_parse text = Inl e)))"
proof -
  let ?loop = "chatLoop 3 chat JSON_parse toolHandler"
  let ?m1 = "m0 @ toolTurns JSON_parse toolHandler r1"
  let ?m2 = "?m1 @ toolTurns JSON_parse toolHandler r2"
  let ?m3 = "?m2 @ toolTurns JSON_parse toolHandler r3"
  let ?ok = "\<lambda>r. the_calls r \<noteq> [] \<and> list_all (args_ok JSON_parse) (the_calls r)"
  have run: "chatWithTools chat JSON_parse toolHandler None m0 = ?loop m0 False 0"
    by (simp add: chatWithTools_def DEFAULT_MAX_ITERATIONS_def)
  have s1: "chat m0 = Inr r1 \<Longrightarrow> ?ok r1 \<Longrightarrow> ?loop m0 False 0 = ?loop ?m1 True 1"
    using chatLoop_step[of 0 3 chat m0 r1 JSON_parse toolHandler False]
    by (simp add: numeral_2_eq_2 numeral_3_eq_3)
  have s2: "chat ?m1 = Inr r2 \<Longrightarrow> ?ok r2 \<Longrightarrow> ?loop ?m1 True 1 = ?loop ?m2 True 2"
    using chatLoop_step[of 1 3 chat ?m1 r2 JSON_parse toolHandler True]
    by (simp add: numeral_2_eq_2 numeral_3_eq_3)
  have s3: "chat ?m2 = Inr r3 \<Longrightarrow> ?ok r3 \<Longrightarrow> ?loop ?m2 True 2 = ?loop ?m3 True 3"
    using chatLoop_step[of 2 3 chat ?m2 r3 JSON_parse toolHandler True]
    by (simp add: numeral_2_eq_2 numeral_3_eq_3)
  have f1: "chat m0 = Inr r1 \<Longrightarrow> the_calls r1 = [] \<Longrightarrow>
              ?loop m0 False 0 = Inr \<lparr>response = r1, toolUsed = False, iterations = 1\<rparr>"
    using chatLoop_final[of 0 3 chat m0 r1 JSON_parse toolHandler False]
    by (simp add: numeral_2_eq_2 numeral_3_eq_3)
  have f2: "chat ?m1 = Inr r2 \<Longrightarrow> the_calls r2 = [] \<Longrightarrow>
              ?loop ?m1 True 1 = Inr \<lparr>response = r2, toolUsed = True, iterations = 2\<rparr>"
    using chatLoop_final[of 1 3 chat ?m1 r2 JSON_parse toolHandler True]
    by (simp add: numeral_2_eq_2 numeral_3_eq_3)
  have f3: "chat ?m2 = Inr r3 \<Longrightarrow> the_calls r3 = [] \<Longrightarrow>
              ?loop ?m2 True 2 = Inr \<lparr>response = r3, toolUsed = True, iterations = 3\<rparr>"
    using chatLoop_final[of 2 3 chat ?m2 r3 JSON_parse toolHandler True]
    by (simp add: numeral_2_eq_2 numeral_3_eq_3)
  have x: "?loop ?m3 True 3 = Inl (Error ''Max tool iterations (3) exceeded'')"
    using chatLoop_exceeded[of 3 chat JSON_parse toolHandler ?m3 True]
    by (simp only: max_iterations_message)
  have bound: "\<forall>res. ?loop m0 False 0 = Inr res \<longrightarrow> iterations res \<le> 3"
    using chatLoop_iterations[of 3 chat JSON_parse toolHandler m0 False 0] by blast
  have errs: "\<forall>e. ?loop m0 False 0 = Inl e \<longrightarrow>
            e = Error ''Max tool iterations (3) exceeded''
            \<or> (\<exists>msgs. chat msgs = Inl e) \<or> (\<exists>text. JSON_parse text = Inl e)"
    using chatLoop_errors[of 3 chat JSON_parse toolHandler m0 False 0]
    by (simp only: max_iterations_message) blast
  show ?thesis
    unfolding Let_def run
    using s1 s2 s3 f1 f2 f3 x bound errs by metis
qed

text \<open>
  C5 (amended). With the default options \<open>chatWithTools\<close> sends at most three requests.
  Provided every tool call of a reply has arguments that are an object or a text that
  \<open>JSON.parse\<close> accepts, a reply that carries tool calls has each call executed by the
  handler, the assistant message and the tool-result turn are appended for each call (the
  tool result is what the handler returns, and the JSON error envelope when the handler
  throws), and the loop continues; the first reply without tool calls ends the loop and
  is returned with the number of requests made and the flag telling whether an earlier
  reply carried tool calls; when all three replies carry tool calls the call fails with
  the max-iterations error. A result reports at most 3 iterations. An error that leaves
  \<open>chatWithTools\<close> is the max-iterations error, an error of the chat request or a
  SyntaxError of \<open>JSON.parse\<close> on an argument text: a handler exception is never
  propagated. In every iteration, a reply with a tool call whose argument text
  \<open>JSON.parse\<close> rejects (the calls before it having arguments it accepts) makes the call
  fail with that SyntaxError.
\<close>

theorem chatWithTools_bounded_protocol:
  "(let run = chatWithTools chat JSON_parse toolHandler None m0;
        m1 = m0 @ toolTurns JSON_parse toolHandler r1;
        m2 = m1 @ toolTurns JSON_parse toolHandler r2;
        calls_ok = (\<lambda>r. the_calls r \<noteq> [] \<and> list_all (args_ok JSON_parse) (the_calls r))
    in (chat m0 = Inr r1 \<and> the_calls r1 = [] \<longrightarrow>
          run = Inr \<lparr>response = r1, toolUsed = False, iterations = 1\<rparr>)
     \<and> (chat m0 = Inr r1 \<and> calls_ok r1 \<and> chat m1 = Inr r2 \<and> the_calls r2 = [] \<longrightarrow>
          run = Inr \<lparr>response = r2, toolUsed = True, iterations = 2\<rparr>)
     \<and> (chat m0 = Inr r1 \<and> calls_ok r1 \<and> chat m1 = Inr r2 \<and> calls_ok r2
          \<and> chat m2 = Inr r3 \<and> the_calls r3 = [] \<longrightarrow>
          run = Inr \<lparr>response = r3, toolUsed = True, iterations = 3\<rparr>)
     \<and> (chat m0 = Inr r1 \<and> calls_ok r1 \<and> chat m1 = Inr r2 \<and> calls_ok r2
          \<and> chat m2 = Inr r3 \<and> calls_ok r3 \<longrightarrow>
          run = Inl (Error ''Max tool iterations (3) exceeded''))
     \<and> (\<forall>res. run = Inr res \<longrightarrow> iterations res \<le> 3)
     \<and> (\<forall>e. run = Inl e \<longrightarrow>
            e = Error ''Max tool iterations (3) exceeded''
            \<or> (\<exists>msgs. chat msgs = Inl e) \<or> (\<exists>text. JSON_parse text = Inl e)))
   \<and> (iters < maxIterations \<and> chat ms = Inr am \<and> the_calls am = pre @ c # post
        \<and> list_all (args_ok JSON_parse) pre
        \<and> parseToolArguments JSON_parse (function_arguments c) = Inl perr \<longrightarrow>
        chatLoop maxIterations chat JSON_parse toolHandler ms used iters = Inl perr)
   \<and> (chat m0 = Inr r1 \<and> the_calls r1 = pre @ c # post
        \<and> list_all (args_ok JSON_parse) pre
        \<and> parseToolArguments JSON_parse (function_arguments c) = Inl perr \<longrightarrow>
        chatWithTools chat JSON_parse toolHandler None m0 = Inl perr)
   \<and> parseToolArguments JSON_parse (Inl argText) = JSON_parse argText
   \<and> parseToolArguments JSON_parse (Inr obj) = Inr obj
   \<and> the_calls r = (case tool_calls r of None \<Rightarrow> [] | Some cs \<Rightarrow> cs)
   \<and> toolTurns JSON_parse toolHandler r
       = concat (map (\<lambda>tc. [r, \<lparr>role = Tool,
                                content =
                                  (case toolHandler (function_name tc)
                                          (projr (parseToolArguments JSON_parse
                                                    (function_arguments tc))) of
                                     Inr toolResult \<Rightarrow> toolResult
                                   | Inl err \<Rightarrow>
                                       [CHR ''{'', CHR 0x22] @ ''error'' @ [CHR 0x22, CHR '':'']
                                       @ json_quote (error_to_string err) @ [CHR ''}'']),
                                tool_calls = None\<rparr>])
                     (the_calls r))
   \<and> (toolHandler n a = Inr s \<longrightarrow> callToolHandler toolHandler n a = s)
   \<and> (toolHandler n a = Inl err \<longrightarrow>
        callToolHandler toolHandler n a
          = [CHR ''{'', CHR 0x22] @ ''error'' @ [CHR 0x22, CHR '':'']
            @ json_quote (error_to_string err) @ [CHR ''}''])"
proof (intro conjI impI)
  show "(let run = chatWithTools chat JSON_parse toolHandler None m0;
        m1 = m0 @ toolTurns JSON_parse toolHandler r1;
        m2 = m1 @ toolTurns JSON_parse toolHandler r2;
        calls_ok = (\<lambda>r. the_calls r \<noteq> [] \<and> list_all (args_ok JSON_parse) (the_calls r))
    in (chat m0 = Inr r1 \<and> the_calls r1 = [] \<longrightarrow>
          run = Inr \<lparr>response = r1, toolUsed = False, iterations = 1\<rparr>)
     \<and> (chat m0 = Inr r1 \<and> calls_ok r1 \<and> chat m1 = Inr r2 \<and> the_calls r2 = [] \<longrightarrow>
          run = Inr \<lparr>response = r2, toolUsed = True, iterations = 2\<rparr>)
     \<and> (chat m0 = Inr r1 \<and> calls_ok r1 \<and> chat m1 = Inr r2 \<and> calls_ok r2
          \<and> chat m2 = Inr r3 \<and> the_calls r3 = [] \<longrightarrow>
          run = Inr \<lparr>response = r3, toolUsed = True, iterations = 3\<rparr>)
     \<and> (chat m0 = Inr r1 \<and> calls_ok r1 \<and> chat m1 = Inr r2 \<and> calls_ok r2
          \<and> chat m2 = Inr r3 \<and> calls_ok r3 \<longrightarrow>
          run = Inl (Error ''Max tool iterations (3) exceeded''))
     \<and> (\<forall>res. run = Inr res \<longrightarrow> iterations res \<le> 3)
     \<and> (\<forall>e. run = Inl e \<longrightarrow>
            e = Error ''Max tool iterations (3) exceeded''
            \<or> (\<exists>msgs. chat msgs = Inl e) \<or> (\<exists>text. JSON_parse text = Inl e)))"
    by (rule chatWithTools_three_rounds)
next
  assume "iters < maxIterations \<and> chat ms = Inr am \<and> the_calls am = pre @ c # post
        \<and> list_all (args_ok JSON_parse) pre
        \<and> parseToolArguments JSON_parse (function_arguments c) = Inl perr"
  then show "chatLoop maxIterations chat JSON_parse toolHandler ms used iters = Inl perr"
    using chatLoop_malformed[of iters maxIterations chat ms am pre c post JSON_parse perr
            toolHandler used]
    by blast
next
  assume "chat m0 = Inr r1 \<and> the_calls r1 = pre @ c # post
        \<and> list_all (args_ok JSON_parse) pre
        \<and> parseToolArguments JSON_parse (function_arguments c) = Inl perr"
  then show "chatWithTools chat JSON_parse toolHandler None m0 = Inl perr"
    using chatLoop_malformed[of 0 3 chat m0 r1 pre c post JSON_parse perr toolHandler False]
    by (simp add: chatWithTools_def DEFAULT_MAX_ITERATIONS_def)
next
  show "parseToolArguments JSON_parse (Inl argText) = JSON_parse argText"
    by (simp add: parseToolArguments_def)
next
  show "parseToolArguments JSON_parse (Inr obj) = Inr obj"
    by (simp add: parseToolArguments_def)
next
  show "the_calls r = (case tool_calls r of None \<Rightarrow> [] | Some cs \<Rightarrow> cs)"
    by (simp add: the_calls_def)
next
  show "toolTurns JSON_parse toolHandler r
       = concat (map (\<lambda>tc. [r, \<lparr>role = Tool,
                                content =
                                  (case toolHandler (function_name tc)
                                          (projr (parseToolArguments JSON_parse
                                                    (function_arguments tc))) of
                                     Inr toolResult \<Rightarrow> toolResult
                                   | Inl err \<Rightarrow>
                                       [CHR ''{'', CHR 0x22] @ ''error'' @ [CHR 0x22, CHR '':'']
                                       @ json_quote (error_to_string err) @ [CHR ''}'']),
                                tool_calls = None\<rparr>])
                     (the_calls r))"
    unfolding toolTurns_def callToolHandler_def createErrorResponse_def by (rule refl)
next
  assume "toolHandler n a = Inr s"
  then show "callToolHandler toolHandler n a = s"
    by (rule callToolHandler_result)
next
  assume "toolHandler n a = Inl err"
  then show "callToolHandler toolHandler n a
          = [CHR ''{'', CHR 0x22] @ ''error'' @ [CHR 0x22, CHR '':'']
            @ json_quote (error_to_string err) @ [CHR ''}'']"
    using callToolHandler_caught[of toolHandler n a err]
    by (simp add: createErrorResponse_def)
qed

lemma store_unavailable_quoted:
  "json_quote ''Error: store unavailable''
     = CHR 0x22 # ''Error: store unavailable'' @ [CHR 0x22]"
  by code_simp

text \<open>
  Two runs of two iterations. The LLM first asks for the tool and then, only when the last
  message of its second request is the tool result, gives its answer; any other request
  fails. In the first run the handler throws and the tool result is the error envelope;
  in the second the handler returns a text and the tool result is that text.
\<close>

theorem chatWithTools_bounded_protocol_witness:
  "chatWithTools
     (\<lambda>ms. if ms = []
           then Inr \<lparr>role = Assistant, content = [],
                     tool_calls = Some [\<lparr>function_name = ''get_gold_example'',
                                         function_arguments = Inr JNull\<rparr>]\<rparr>
           else if content (last ms)
                   = [CHR ''{'', CHR 0x22] @ ''error'' @ [CHR 0x22, CHR '':'', CHR 0x22]
                     @ ''Error: store unavailable'' @ [CHR 0x22, CHR ''}'']
           then Inr \<lparr>role = Assistant, content = ''{}'', tool_calls = None\<rparr>
           else Inl (Error ''unexpected request''))
     (\<lambda>t. Inl (SyntaxError t))
     (\<lambda>n a. Inl (Error ''store unavailable''))
     None []
   = Inr \<lparr>response = \<lparr>role = Assistant, content = ''{}'', tool_calls = None\<rparr>,
          toolUsed = True, iterations = 2\<rparr>
   \<and> chatWithTools
     (\<lambda>ms. if ms = []
           then Inr \<lparr>role = Assistant, content = [],
                     tool_calls = Some [\<lparr>function_name = ''get_gold_example'',
                                         function_arguments = Inr JNull\<rparr>]\<rparr>
           else if content (last ms) = ''no example''
           then Inr \<lparr>role = Assistant, content = ''{}'', tool_calls = None\<rparr>
           else Inl (Error ''unexpected request''))
     (\<lambda>t. Inl (SyntaxError t))
     (\<lambda>n a. Inr ''no example'')
     None []
   = Inr \<lparr>response = \<lparr>role = Assistant, content = ''{}'', tool_calls = None\<rparr>,
          toolUsed = True, iterations = 2\<rparr>"
proof -
  let ?call = "\<lparr>function_name = ''get_gold_example'',
                function_arguments = (Inr JNull :: string + jsvalue)\<rparr>"
  let ?ask = "\<lparr>role = Assistant, content = [], tool_calls = Some [?call]\<rparr>"
  let ?answer = "\<lparr>role = Assistant, content = ''{}'',
                  tool_calls = (None :: jsvalue tool_call list option)\<rparr>"
  let ?parse = "\<lambda>t. (Inl (SyntaxError t) :: js_error + jsvalue)"
  let ?chat1 = "\<lambda>ms. if ms = [] then Inr ?ask
           else if content (last ms)
                   = [CHR ''{'', CHR 0x22] @ ''error'' @ [CHR 0x22, CHR '':'', CHR 0x22]
                     @ ''Error: store unavailable'' @ [CHR 0x22, CHR ''}'']
           then Inr ?answer
           else Inl (Error ''unexpected request'')"
  let ?chat2 = "\<lambda>ms. if ms = [] then Inr ?ask
           else if content (last ms) = ''no example''
           then Inr ?answer
           else Inl (Error ''unexpected request'')"
  let ?h1 = "\<lambda>(n::string) (a::jsvalue). (Inl (Error ''store unavailable'') :: js_error + string)"
  let ?h2 = "\<lambda>(n::string) (a::jsvalue). (Inr ''no example'' :: js_error + string)"
  note t1 = chatWithTools_bounded_protocol
    [where chat = ?chat1 and JSON_parse = ?parse and toolHandler = ?h1 and ?m0.0 = "[]"
       and ?r1.0 = ?ask and ?r2.0 = ?answer and ?r3.0 = ?answer and iters = 0
       and maxIterations = 3 and ms = "[]" and am = ?ask and pre = "[]" and c = ?call
       and post = "[]" and perr = "Error []" and used = False and argText = "[]" and obj = JNull
       and r = ?ask and n = "''get_gold_example''" and a = JNull and s = "[]"
       and err = "Error ''store unavailable''"]
  note t2 = chatWithTools_bounded_protocol
    [where chat = ?chat2 and JSON_parse = ?parse and toolHandler = ?h2 and ?m0.0 = "[]"
       and ?r1.0 = ?ask and ?r2.0 = ?answer and ?r3.0 = ?answer and iters = 0
       and maxIterations = 3 and ms = "[]" and am = ?ask and pre = "[]" and c = ?call
       and post = "[]" and perr = "Error []" and used = False and argText = "[]" and obj = JNull
       and r = ?ask and n = "''get_gold_example''" and a = JNull and s = "''no example''"
       and err = "Error []"]
  show ?thesis
    using t1 t2
    by (simp add: Let_def the_calls_def args_ok_def parseToolArguments_def toolTurns_def
          callToolHandler_def createErrorResponse_def store_unavailable_quoted)
qed

text \<open>
  As stated, the claim covers every sequence of replies. A reply whose tool call carries
  an argument text that \<open>JSON.parse\<close> rejects ends the call at the first iteration with
  the SyntaxError: the handler is not executed, the loop does not continue, and the
  error is not the max-iterations error although every reply carries a tool call.
\<close>

theorem chatWithTools_malformed_arguments_counterexample:
  "chatWithTools
     (\<lambda>ms. Inr \<lparr>role = Assistant, content = [],
                tool_calls = Some [\<lparr>function_name = ''get_gold_example'',
                                    function_arguments = Inl ''{''\<rparr>]\<rparr>)
     (\<lambda>t. if t = ''{'' then Inl (SyntaxError ''Unexpected end of JSON input'') else Inr JNull)
     (\<lambda>n a. Inr ''{}'')
     None []
   = Inl (SyntaxError ''Unexpected end of JSON input'')"
  by (simp add: chatWithTools_def DEFAULT_MAX_ITERATIONS_def chatLoop_unfold the_calls_def
        runToolCall_def parseToolArguments_def)

subsection \<open>A tool that is not registered\<close>

lemma executeTool_not_found:
  "tools n = None \<Longrightarrow> executeTool tools n a = Inl (Error (''Tool not found: '' @ n))"
  by (simp add: executeTool_def)

lemma unregistered_envelope:
  "tools n = None \<Longrightarrow>
   callToolHandler (createToolHandler tools) n a
     = [CHR ''{'', CHR 0x22] @ ''error'' @ [CHR 0x22, CHR '':'']
       @ json_quote (''Error: Tool not found: '' @ n) @ [CHR ''}'']"
  by (simp add: callToolHandler_def createToolHandler_def executeTool_def
        createErrorResponse_def)

lemma unregistered_turns:
  assumes "tools n = None" "parseToolArguments JSON_parse args = Inr a"
    and "the_calls am = [\<lparr>function_name = n, function_arguments = args\<rparr>]"
  shows "toolTurns JSON_parse (createToolHandler tools) am
        = [am, \<lparr>role = Tool,
                 content = [CHR ''{'', CHR 0x22] @ ''error'' @ [CHR 0x22, CHR '':'']
                           @ json_quote (''Error: Tool not found: '' @ n) @ [CHR ''}''],
                 tool_calls = None\<rparr>]"
  using assms unregistered_envelope[of tools n a] by (simp add: toolTurns_def)

lemma unregistered_step:
  assumes "tools n = None" "parseToolArguments JSON_parse args = Inr a"
    and "the_calls am = [\<lparr>function_name = n, function_arguments = args\<rparr>]"
    and "iters < maxIterations" "chat ms = Inr am"
  shows "chatLoop maxIterations chat JSON_parse (createToolHandler tools) ms used iters
         = chatLoop maxIterations chat JSON_parse (createToolHandler tools)
             (ms @ [am, \<lparr>role = Tool,
                          content = [CHR ''{'', CHR 0x22] @ ''error'' @ [CHR 0x22, CHR '':'']
                                    @ json_quote (''Error: Tool not found: '' @ n)
                                    @ [CHR ''}''],
                          tool_calls = None\<rparr>])
             True (iters + 1)"
proof -
  have ok: "list_all (args_ok JSON_parse) (the_calls am)" and ne: "the_calls am \<noteq> []"
    using assms(2,3) by (simp_all add: args_ok_def)
  have "chatLoop maxIterations chat JSON_parse (createToolHandler tools) ms used iters
         = chatLoop maxIterations chat JSON_parse (createToolHandler tools)
             (ms @ toolTurns JSON_parse (createToolHandler tools) am) True (iters + 1)"
    using chatLoop_step[of iters maxIterations chat ms am JSON_parse "createToolHandler tools"
            used] assms(4) assms(5) ne ok
    by blast
  then show ?thesis
    using unregistered_turns[of tools n JSON_parse args a am] assms(1) assms(2) assms(3)
    by simp
qed

text \<open>
  C10 (amended). When the LLM requests a tool name that is not registered, with arguments
  that are an object or a text that \<open>JSON.parse\<close> accepts, \<open>executeTool\<close> throws the
  "Tool not found" error, the error is caught in the loop and serialized as the JSON
  envelope with the key "error", the assistant message and the envelope as a tool turn
  are appended to the messages, and the loop goes on to its next iteration: the next
  request is sent with these messages, and when its reply carries no tool call that reply
  is returned, with the tool flag set and one iteration more. When the request was made
  in the last iteration allowed, the call ends with the max-iterations error. With the
  registry's handler a reply whose tool calls all have such arguments never ends the
  loop, whichever names it requests.
\<close>

theorem unregistered_tool_does_not_abort:
  "(tools n = None \<longrightarrow>
      executeTool tools n a = Inl (Error (''Tool not found: '' @ n))
    \<and> callToolHandler (createToolHandler tools) n a
        = [CHR ''{'', CHR 0x22] @ ''error'' @ [CHR 0x22, CHR '':'']
          @ json_quote (''Error: Tool not found: '' @ n) @ [CHR ''}'']
    \<and> (parseToolArguments JSON_parse args = Inr a \<longrightarrow>
         runToolCall JSON_parse (createToolHandler tools) am ms
           \<lparr>function_name = n, function_arguments = args\<rparr>
         = Inr (ms @ [am, \<lparr>role = Tool,
                           content = [CHR ''{'', CHR 0x22] @ ''error'' @ [CHR 0x22, CHR '':'']
                                     @ json_quote (''Error: Tool not found: '' @ n)
                                     @ [CHR ''}''],
                           tool_calls = None\<rparr>]))
    \<and> (parseToolArguments JSON_parse args = Inr a \<and> iters < maxIterations
         \<and> chat ms = Inr am
         \<and> the_calls am = [\<lparr>function_name = n, function_arguments = args\<rparr>] \<longrightarrow>
         chatLoop maxIterations chat JSON_parse (createToolHandler tools) ms used iters
         = chatLoop maxIterations chat JSON_parse (createToolHandler tools)
             (ms @ [am, \<lparr>role = Tool,
                          content = [CHR ''{'', CHR 0x22] @ ''error'' @ [CHR 0x22, CHR '':'']
                                    @ json_quote (''Error: Tool not found: '' @ n)
                                    @ [CHR ''}''],
                          tool_calls = None\<rparr>])
             True (iters + 1))
    \<and> (parseToolArguments JSON_parse args = Inr a \<and> iters + 1 < maxIterations
         \<and> chat ms = Inr am
         \<and> the_calls am = [\<lparr>function_name = n, function_arguments = args\<rparr>]
         \<and> chat (ms @ [am, \<lparr>role = Tool,
                              content = [CHR ''{'', CHR 0x22] @ ''error''
                                        @ [CHR 0x22, CHR '':'']
                                        @ json_quote (''Error: Tool not found: '' @ n)
                                        @ [CHR ''}''],
                              tool_calls = None\<rparr>]) = Inr reply
         \<and> the_calls reply = [] \<longrightarrow>
         chatLoop maxIterations chat JSON_parse (createToolHandler tools) ms used iters
         = Inr \<lparr>response = reply, toolUsed = True, iterations = iters + 2\<rparr>)
    \<and> (parseToolArguments JSON_parse args = Inr a
         \<and> chat ms = Inr am
         \<and> the_calls am = [\<lparr>function_name = n, function_arguments = args\<rparr>]
         \<and> chat (ms @ [am, \<lparr>role = Tool,
                              content = [CHR ''{'', CHR 0x22] @ ''error''
                                        @ [CHR 0x22, CHR '':'']
                                        @ json_quote (''Error: Tool not found: '' @ n)
                                        @ [CHR ''}''],
                              tool_calls = None\<rparr>]) = Inr reply
         \<and> the_calls reply = [] \<longrightarrow>
         chatWithTools chat JSON_parse (createToolHandler tools) None ms
         = Inr \<lparr>response = reply, toolUsed = True, iterations = 2\<rparr>)
    \<and> (parseToolArguments JSON_parse args = Inr a \<and> iters + 1 = maxIterations
         \<and> chat ms = Inr am
         \<and> the_calls am = [\<lparr>function_name = n, function_arguments = args\<rparr>] \<longrightarrow>
         chatLoop maxIterations chat JSON_parse (createToolHandler tools) ms used iters
         = Inl (Error (''Max tool iterations ('' @ show_nat maxIterations @ '') exceeded''))))
   \<and> (iters < maxIterations \<and> chat ms = Inr am \<and> the_calls am \<noteq> []
        \<and> list_all (args_ok JSON_parse) (the_calls am) \<longrightarrow>
       chatLoop maxIterations chat JSON_parse (createToolHandler tools) ms used iters
       = chatLoop maxIterations chat JSON_parse (createToolHandler tools)
           (ms @ toolTurns JSON_parse (createToolHandler tools) am) True (iters + 1))"
proof (intro conjI impI)
  assume "tools n = None"
  then show "executeTool tools n a = Inl (Error (''Tool not found: '' @ n))"
    by (rule executeTool_not_found)
next
  assume "tools n = None"
  then show "callToolHandler (createToolHandler tools) n a
        = [CHR ''{'', CHR 0x22] @ ''error'' @ [CHR 0x22, CHR '':'']
          @ json_quote (''Error: Tool not found: '' @ n) @ [CHR ''}'']"
    by (rule unregistered_envelope)
next
  assume "tools n = None" and "parseToolArguments JSON_parse args = Inr a"
  then show "runToolCall JSON_parse (createToolHandler tools) am ms
           \<lparr>function_name = n, function_arguments = args\<rparr>
         = Inr (ms @ [am, \<lparr>role = Tool,
                           content = [CHR ''{'', CHR 0x22] @ ''error'' @ [CHR 0x22, CHR '':'']
                                     @ json_quote (''Error: Tool not found: '' @ n)
                                     @ [CHR ''}''],
                           tool_calls = None\<rparr>])"
    using unregistered_envelope[of tools n a] by (simp add: runToolCall_def)
next
  assume none: "tools n = None"
    and h: "parseToolArguments JSON_parse args = Inr a \<and> iters < maxIterations
         \<and> chat ms = Inr am
         \<and> the_calls am = [\<lparr>function_name = n, function_arguments = args\<rparr>]"
  show "chatLoop maxIterations chat JSON_parse (createToolHandler tools) ms used iters
         = chatLoop maxIterations chat JSON_parse (createToolHandler tools)
             (ms @ [am, \<lparr>role = Tool,
                          content = [CHR ''{'', CHR 0x22] @ ''error'' @ [CHR 0x22, CHR '':'']
                                    @ json_quote (''Error: Tool not found: '' @ n)
                                    @ [CHR ''}''],
                          tool_calls = None\<rparr>])
             True (iters + 1)"
    using unregistered_step[of tools n JSON_parse args a am iters maxIterations chat ms used] none h
    by blast
next
  let ?ms' = "ms @ [am, \<lparr>role = Tool,
                              content = [CHR ''{'', CHR 0x22] @ ''error''
                                        @ [CHR 0x22, CHR '':'']
                                        @ json_quote (''Error: Tool not found: '' @ n)
                                        @ [CHR ''}''],
                              tool_calls = None\<rparr>]"
  assume none: "tools n = None"
    and h: "parseToolArguments JSON_parse args = Inr a \<and> iters + 1 < maxIterations
         \<and> chat ms = Inr am
         \<and> the_calls am = [\<lparr>function_name = n, function_arguments = args\<rparr>]
         \<and> chat ?ms' = Inr reply
         \<and> the_calls reply = []"
  then have lt: "iters < maxIterations" by simp
  have "chatLoop maxIterations chat JSON_parse (createToolHandler tools) ms used iters
         = chatLoop maxIterations chat JSON_parse (createToolHandler tools) ?ms' True (iters + 1)"
    using unregistered_step[of tools n JSON_parse args a am iters maxIterations chat ms used]
      none h lt by blast
  also have "\<dots> = Inr \<lparr>response = reply, toolUsed = True, iterations = iters + 1 + 1\<rparr>"
    using chatLoop_final[of "iters + 1" maxIterations chat ?ms' reply JSON_parse
            "createToolHandler tools" True] h
    by blast
  finally show "chatLoop maxIterations chat JSON_parse (createToolHandler tools) ms used iters
         = Inr \<lparr>response = reply, toolUsed = True, iterations = iters + 2\<rparr>"
    by simp
next
  let ?ms' = "ms @ [am, \<lparr>role = Tool,
                              content = [CHR ''{'', CHR 0x22] @ ''error''
                                        @ [CHR 0x22, CHR '':'']
                                        @ json_quote (''Error: Tool not found: '' @ n)
                                        @ [CHR ''}''],
                              tool_calls = None\<rparr>]"
  assume none: "tools n = None"
    and h: "parseToolArguments JSON_parse args = Inr a
         \<and> chat ms = Inr am
         \<and> the_calls am = [\<lparr>function_name = n, function_arguments = args\<rparr>]
         \<and> chat ?ms' = Inr reply
         \<and> the_calls reply = []"
  have "chatLoop 3 chat JSON_parse (createToolHandler tools) ms False 0
         = chatLoop 3 chat JSON_parse (createToolHandler tools) ?ms' True (0 + 1)"
    using unregistered_step[of tools n JSON_parse args a am 0 3 chat ms False] none h by simp
  also have "\<dots> = Inr \<lparr>response = reply, toolUsed = True, iterations = 0 + 1 + 1\<rparr>"
    using chatLoop_final[of "0 + 1" 3 chat ?ms' reply JSON_parse
            "createToolHandler tools" True] h
    by simp
  finally show "chatWithTools chat JSON_parse (createToolHandler tools) None ms
         = Inr \<lparr>response = reply, toolUsed = True, iterations = 2\<rparr>"
    by (simp add: chatWithTools_def DEFAULT_MAX_ITERATIONS_def)
next
  assume none: "tools n = None"
    and h: "parseToolArguments JSON_parse args = Inr a \<and> iters + 1 = maxIterations
         \<and> chat ms = Inr am
         \<and> the_calls am = [\<lparr>function_name = n, function_arguments = args\<rparr>]"
  then have lt: "iters < maxIterations" by simp
  have "chatLoop maxIterations chat JSON_parse (createToolHandler tools) ms used iters
         = chatLoop maxIterations chat JSON_parse (createToolHandler tools)
             (ms @ [am, \<lparr>role = Tool,
                          content = [CHR ''{'', CHR 0x22] @ ''error'' @ [CHR 0x22, CHR '':'']
                                    @ json_quote (''Error: Tool not found: '' @ n)
                                    @ [CHR ''}''],
                          tool_calls = None\<rparr>])
             True (iters + 1)"
    using unregistered_step[of tools n JSON_parse args a am iters maxIterations chat ms used]
      none h lt by blast
  then show "chatLoop maxIterations chat JSON_parse (createToolHandler tools) ms used iters
         = Inl (Error (''Max tool iterations ('' @ show_nat maxIterations @ '') exceeded''))"
    using h chatLoop_exceeded[of maxIterations chat JSON_parse "createToolHandler tools"]
    by simp
next
  assume "iters < maxIterations \<and> chat ms = Inr am \<and> the_calls am \<noteq> []
        \<and> list_all (args_ok JSON_parse) (the_calls am)"
  then show "chatLoop maxIterations chat JSON_parse (createToolHandler tools) ms used iters
       = chatLoop maxIterations chat JSON_parse (createToolHandler tools)
           (ms @ toolTurns JSON_parse (createToolHandler tools) am) True (iters + 1)"
    using chatLoop_step[of iters maxIterations chat ms am JSON_parse
            "createToolHandler tools" used] by blast
qed

lemma lookup_quoted:
  "json_quote ''Error: Tool not found: lookup''
     = CHR 0x22 # ''Error: Tool not found: lookup'' @ [CHR 0x22]"
  by code_simp

text \<open>
  A run with an empty registry: the LLM asks for the tool "lookup" and gives its answer
  only when the last message of its second request is the "Tool not found" envelope.
\<close>

theorem unregistered_tool_does_not_abort_witness:
  "chatWithTools
     (\<lambda>ms. if ms = []
           then Inr \<lparr>role = Assistant, content = [],
                     tool_calls = Some [\<lparr>function_name = ''lookup'',
                                         function_arguments = Inr JNull\<rparr>]\<rparr>
           else if content (last ms)
                   = [CHR ''{'', CHR 0x22] @ ''error'' @ [CHR 0x22, CHR '':'', CHR 0x22]
                     @ ''Error: Tool not found: lookup'' @ [CHR 0x22, CHR ''}'']
           then Inr \<lparr>role = Assistant, content = ''{}'', tool_calls = None\<rparr>
           else Inl (Error ''unexpected request''))
     (\<lambda>t. Inl (SyntaxError t))
     (createToolHandler Map.empty)
     None []
   = Inr \<lparr>response = \<lparr>role = Assistant, content = ''{}'', tool_calls = None\<rparr>,
          toolUsed = True, iterations = 2\<rparr>"
proof -
  let ?call = "\<lparr>function_name = ''lookup'',
                function_arguments = (Inr JNull :: string + jsvalue)\<rparr>"
  let ?ask = "\<lparr>role = Assistant, content = [], tool_calls = Some [?call]\<rparr>"
  let ?answer = "\<lparr>role = Assistant, content = ''{}'',
                  tool_calls = (None :: jsvalue tool_call list option)\<rparr>"
  let ?parse = "\<lambda>t. (Inl (SyntaxError t) :: js_error + jsvalue)"
  let ?chat = "\<lambda>ms. if ms = [] then Inr ?ask
           else if content (last ms)
                   = [CHR ''{'', CHR 0x22] @ ''error'' @ [CHR 0x22, CHR '':'', CHR 0x22]
                     @ ''Error: Tool not found: lookup'' @ [CHR 0x22, CHR ''}'']
           then Inr ?answer
           else Inl (Error ''unexpected request'')"
  note t = unregistered_tool_does_not_abort
    [where tools = "Map.empty :: string \<rightharpoonup> (jsvalue \<Rightarrow> js_error + string)"
       and n = "''lookup''" and a = JNull and JSON_parse = ?parse and args = "Inr JNull"
       and am = ?ask and ms = "[]" and iters = 0 and maxIterations = 3 and chat = ?chat
       and used = False and reply = ?answer]
  show ?thesis
    using t by (simp add: parseToolArguments_def the_calls_def lookup_quoted)
qed

text \<open>
  As stated, the claim covers every request of an unregistered tool. When the arguments
  of such a request are a text that \<open>JSON.parse\<close> rejects, \<open>executeTool\<close> is not reached
  and the loop is aborted by the SyntaxError.
\<close>

theorem unregistered_tool_malformed_arguments_counterexample:
  "chatWithTools
     (\<lambda>ms. Inr \<lparr>role = Assistant, content = [],
                tool_calls = Some [\<lparr>function_name = ''lookup'',
                                    function_arguments = Inl ''{''\<rparr>]\<rparr>)
     (\<lambda>t. if t = ''{'' then Inl (SyntaxError ''Unexpected end of JSON input'') else Inr JNull)
     (createToolHandler Map.empty)
     None []
   = Inl (SyntaxError ''Unexpected end of JSON input'')"
  by (simp add: chatWithTools_def DEFAULT_MAX_ITERATIONS_def chatLoop_unfold the_calls_def
        runToolCall_def parseToolArguments_def)

section \<open>ClassificationService.classify\<close>

definition LOW_CONFIDENCE_THRESHOLD :: real where "LOW_CONFIDENCE_THRESHOLD = 0.7"
definition MAPPED_TYPE_CONFIDENCE_CAP :: real where "MAPPED_TYPE_CONFIDENCE_CAP = 0.6"
definition OCR_TEXT_SUBSTRING_LENGTH :: nat where "OCR_TEXT_SUBSTRING_LENGTH = 2000"
definition DEFAULT_MAPPED_CONFIDENCE :: real where "DEFAULT_MAPPED_CONFIDENCE = 0.5"

definition DOCUMENT_TYPE_MAPPING :: "(string \<times> string) list" where
  "DOCUMENT_TYPE_MAPPING =
     [(''conditional sales contract'', ''Certificate of Insurance''),
      (''sales contract'', ''Certificate of Insurance''),
      (''contract'', ''Certificate of Insurance''),
      (''driver license'', ''Government ID''),
      (''drivers license'', ''Government ID''),
      (''passport'', ''Government ID''),
      (''tax form'', ''W-9''),
      (''w9'', ''W-9'')]"

definition DocumentTypeEnum :: "string list" where
  "DocumentTypeEnum =
     [''Bank Statement'', ''Government ID'', ''W-9'', ''Certificate of Insurance'',
      ''Articles of Incorporation'', ''Unknown'']"

text \<open>
  The parsed reply of the LLM, read through the shape the prompt demands: the document
  type is a string, the confidence a number or absent, the evidence a list of strings or
  absent. Replies of another shape are outside the model. \<open>reply_value\<close> is the object
  as the confidence calculator sees it.
\<close>

record parsed_reply =
  document_type :: string
  confidence :: "real option"
  evidence :: "string list option"

definition reply_value :: "parsed_reply \<Rightarrow> jsvalue" where
  "reply_value p =
     JObj ([(''document_type'', JStr (document_type p))]
           @ (case confidence p of None \<Rightarrow> [] | Some c \<Rightarrow> [(''confidence'', JNum c)])
           @ (case evidence p of None \<Rightarrow> [] | Some es \<Rightarrow> [(''evidence'', JArr (map JStr es))]))"

record 'e LearningResult =
  exampleFound :: bool
  example :: "'e option"

text \<open>
  The collaborators of the service: the LLM request, \<open>JSON.parse\<close> on tool arguments and
  on reply contents, the tool registry, the threshold store, the example store (the
  counts of gold examples per document type and the query for one gold example of a type,
  both of which may fail), the prompt template of the learning service, and the system
  prompt. The type \<open>'e\<close> is the type of gold examples.
\<close>

record 'e classify_env =
  llm_chat :: "jsvalue OllamaMessage list \<Rightarrow> js_error + jsvalue OllamaMessage"
  json_parse_args :: "string \<Rightarrow> js_error + jsvalue"
  json_parse_reply :: "string \<Rightarrow> js_error + parsed_reply"
  registry :: "string \<rightharpoonup> (jsvalue \<Rightarrow> js_error + string)"
  threshold_of :: "string \<Rightarrow> real"
  getGoldExampleCounts :: "js_error + (string \<Rightarrow> nat)"
  getGoldExample :: "string \<Rightarrow> js_error + 'e option"
  prepareLearningPrompt :: "'e \<Rightarrow> string"
  SYSTEM_PROMPT :: string

text \<open>
  The LearningService. \<open>shouldUseLearning\<close> compares with the default threshold 0.7 and
  then asks the store for the counts; a failure of that query is thrown.
  \<open>retrieveLearningExample\<close> returns the default result (no example) for an empty
  document type and when learning is not to be used, and treats a failure of the example
  query as no example found. Of its result only the fields read by the callers are kept.
\<close>

definition shouldUseLearning :: "'e classify_env \<Rightarrow> real \<Rightarrow> string \<Rightarrow> js_error + bool" where
  "shouldUseLearning env conf docType =
     (if conf \<ge> DEFAULT_CONFIDENCE_THRESHOLD then Inr False
      else (case getGoldExampleCounts env of
              Inl e \<Rightarrow> Inl e
            | Inr counts \<Rightarrow> Inr (counts docType > 0)))"

definition retrieveLearningExample ::
  "'e classify_env \<Rightarrow> string \<Rightarrow> real \<Rightarrow> js_error + 'e LearningResult" where
  "retrieveLearningExample env docType conf =
     (if docType = [] then Inr \<lparr>exampleFound = False, example = None\<rparr>
      else
        (case shouldUseLearning env conf docType of
           Inl e \<Rightarrow> Inl e
         | Inr shouldLearn \<Rightarrow>
             if \<not> shouldLearn then Inr \<lparr>exampleFound = False, example = None\<rparr>
             else
               (case getGoldExample env docType of
                  Inl e \<Rightarrow> Inr \<lparr>exampleFound = False, example = None\<rparr>
                | Inr None \<Rightarrow> Inr \<lparr>exampleFound = False, example = None\<rparr>
                | Inr (Some ex) \<Rightarrow> Inr \<lparr>exampleFound = True, example = Some ex\<rparr>)))"

definition buildUserPrompt :: "string \<Rightarrow> string" where
  "buildUserPrompt ocrText =
     ''Classify this document:'' @ [CHR 0x0A, CHR 0x0A] @ take OCR_TEXT_SUBSTRING_LENGTH ocrText"

definition buildLearningUserPrompt :: "string \<Rightarrow> string \<Rightarrow> string" where
  "buildLearningUserPrompt learningPrompt ocrText =
     learningPrompt @ [CHR 0x0A, CHR 0x0A] @ ''Now classify this document:''
     @ [CHR 0x0A, CHR 0x0A] @ take OCR_TEXT_SUBSTRING_LENGTH ocrText"

definition mapDocumentTypeVariation :: "string \<Rightarrow> string option" where
  "mapDocumentTypeVariation predictedType =
     map_of DOCUMENT_TYPE_MAPPING (toLowerCase predictedType)"

text \<open>\<open>Math.min(currentConfidence || 0.5, 0.6)\<close>: an absent confidence and 0 are falsy.\<close>

definition adjustConfidenceAfterMapping :: "real option \<Rightarrow> real" where
  "adjustConfidenceAfterMapping currentConfidence =
     min (case currentConfidence of
            None \<Rightarrow> DEFAULT_MAPPED_CONFIDENCE
          | Some c \<Rightarrow> if c = 0 then DEFAULT_MAPPED_CONFIDENCE else c)
         MAPPED_TYPE_CONFIDENCE_CAP"

fun join_with :: "string \<Rightarrow> string list \<Rightarrow> string" where
  "join_with sep [] = []"
| "join_with sep [x] = x"
| "join_with sep (x # y # ys) = x @ sep @ join_with sep (y # ys)"

definition invalid_document_type :: "string \<Rightarrow> js_error" where
  "invalid_document_type predictedType =
     Error (''Invalid document type: '' @ predictedType @ ''. Must be one of: ''
            @ join_with '', '' DocumentTypeEnum)"

text \<open>
  The validation of the predicted type against the enum, with the lexical remap and the
  confidence cap on failure.
\<close>

definition resolveDocumentType :: "parsed_reply \<Rightarrow> js_error + parsed_reply" where
  "resolveDocumentType parsed =
     (if document_type parsed \<in> set DocumentTypeEnum then Inr parsed
      else
        (case mapDocumentTypeVariation (document_type parsed) of
           Some mappedType \<Rightarrow>
             if mappedType \<in> set DocumentTypeEnum
             then Inr (parsed\<lparr>document_type := mappedType,
                              confidence :=
                                Some (adjustConfidenceAfterMapping (confidence parsed))\<rparr>)
             else Inl (invalid_document_type mappedType)
         | None \<Rightarrow> Inl (invalid_document_type (document_type parsed))))"

record first_pass =
  fp_toolUsed :: bool
  fp_parsed :: parsed_reply
  fp_threshold :: real
  fp_breakdown :: ConfidenceBreakdown

text \<open>The first pass: the tool-calling chat, the parse, the type check and the score.\<close>

definition firstPass :: "'e classify_env \<Rightarrow> string \<Rightarrow> js_error + first_pass" where
  "firstPass env ocrText =
     (case chatWithTools (llm_chat env) (json_parse_args env) (createToolHandler (registry env))
             None
             [\<lparr>role = System, content = SYSTEM_PROMPT env, tool_calls = None\<rparr>,
              \<lparr>role = User, content = buildUserPrompt ocrText, tool_calls = None\<rparr>] of
        Inl e \<Rightarrow> Inl e
      | Inr result \<Rightarrow>
          (case json_parse_reply env (content (response result)) of
             Inl e \<Rightarrow> Inl (Error ''Failed to parse classification result'')
           | Inr parsed0 \<Rightarrow>
               (case resolveDocumentType parsed0 of
                  Inl e \<Rightarrow> Inl e
                | Inr parsed \<Rightarrow>
                    let predictedType = document_type parsed;
                        threshold = threshold_of env predictedType;
                        confidenceBreakdown =
                          calculateClassificationConfidence (reply_value parsed) ocrText
                            predictedType (Some threshold)
                    in Inr \<lparr>fp_toolUsed = toolUsed result, fp_parsed = parsed,
                            fp_threshold = threshold, fp_breakdown = confidenceBreakdown\<rparr>)))"

text \<open>The returned model; its fields carry the prefix \<open>cm_\<close>.\<close>

record ClassificationModel =
  cm_predicted_type :: string
  cm_confidence :: real
  cm_threshold :: real
  cm_requires_review :: bool
  cm_evidence :: "string list"
  cm_tool_used :: bool
  cm_llm_confidence :: real
  cm_clarity_confidence :: real
  cm_final_confidence :: real
  cm_reasons :: "reason list option"

definition classificationResult ::
  "parsed_reply \<Rightarrow> ConfidenceBreakdown \<Rightarrow> real \<Rightarrow> bool \<Rightarrow> ClassificationModel" where
  "classificationResult finalResult finalConfidenceBreakdown threshold finalToolUsed =
     \<lparr>cm_predicted_type = document_type finalResult,
      cm_confidence = final_confidence finalConfidenceBreakdown,
      cm_threshold = threshold,
      cm_requires_review = (final_confidence finalConfidenceBreakdown < threshold),
      cm_evidence = (case evidence finalResult of None \<Rightarrow> [] | Some es \<Rightarrow> es),
      cm_tool_used = finalToolUsed,
      cm_llm_confidence = llm_confidence finalConfidenceBreakdown,
      cm_clarity_confidence = clarity_confidence finalConfidenceBreakdown,
      cm_final_confidence = final_confidence finalConfidenceBreakdown,
      cm_reasons = reasons finalConfidenceBreakdown\<rparr>"

definition classification_failed :: "js_error \<Rightarrow> js_error" where
  "classification_failed e = Error (''Classification failed: '' @ error_message e)"

text \<open>
  \<open>classify\<close>. The first component of the result counts the calls of \<open>chatWithTools\<close>
  made; the second is the returned model or the thrown error.
\<close>

definition classify :: "'e classify_env \<Rightarrow> string \<Rightarrow> nat \<times> (js_error + ClassificationModel)" where
  "classify env ocrText =
     (case firstPass env ocrText of
        Inl e \<Rightarrow> (1, Inl (classification_failed e))
      | Inr fp \<Rightarrow>
          let first = classificationResult (fp_parsed fp) (fp_breakdown fp) (fp_threshold fp)
                        (fp_toolUsed fp)
          in
          if final_confidence (fp_breakdown fp) < LOW_CONFIDENCE_THRESHOLD
             \<and> \<not> fp_toolUsed fp
          then
            (case retrieveLearningExample env (document_type (fp_parsed fp))
                    (final_confidence (fp_breakdown fp)) of
               Inl e \<Rightarrow> (1, Inl (classification_failed e))
             | Inr learningResult \<Rightarrow>
                 (case (if exampleFound learningResult then example learningResult else None) of
                    None \<Rightarrow> (1, Inr first)
                  | Some ex \<Rightarrow>
                      (case chatWithTools (llm_chat env) (json_parse_args env)
                              (createToolHandler (registry env)) None
                              [\<lparr>role = System, content = SYSTEM_PROMPT env, tool_calls = None\<rparr>,
                               \<lparr>role = User,
                                content = buildLearningUserPrompt (prepareLearningPrompt env ex)
                                            ocrText,
                                tool_calls = None\<rparr>] of
                         Inl e \<Rightarrow> (2, Inl (classification_failed e))
                       | Inr retryResult \<Rightarrow>
                           (case json_parse_reply env (content (response retryResult)) of
                              Inl e \<Rightarrow> (2, Inr first)
                            | Inr retryParsed \<Rightarrow>
                                let retryConfidence =
                                      calculateClassificationConfidence (reply_value retryParsed)
                                        ocrText (document_type retryParsed)
                                        (Some (fp_threshold fp))
                                in if final_confidence retryConfidence
                                      > final_confidence (fp_breakdown fp)
                                   then (2, Inr (classificationResult retryParsed retryConfidence
                                                   (fp_threshold fp) True))
                                   else (2, Inr first)))))
          else (1, Inr first))"

subsection \<open>Facts about the classification score\<close>







lemma classify_first_pass_only:
  assumes "firstPass env ocrText = Inr fp" "fp_toolUsed fp"
  shows "classify env ocrText
           = (1, Inr (classificationResult (fp_parsed fp) (fp_breakdown fp) (fp_threshold fp)
                        (fp_toolUsed fp)))"
  using assms by (simp add: classify_def)



lemma classify_retry_gate:
  assumes "firstPass env ocrText = Inr fp" "classify env ocrText = (2, out)"
  shows "final_confidence (fp_breakdown fp) < 0.7 \<and> \<not> fp_toolUsed fp"
  using assms
  by (auto simp: classify_def Let_def LOW_CONFIDENCE_THRESHOLD_def
           split: if_splits sum.splits option.splits)

subsection \<open>The lexical remap of an invalid type\<close>













subsection \<open>The learning retry\<close>


















end
